theory Spec2Isabelle
  imports Main "HOL-Library.AList" "HOL-Library.Sublist"
begin

section \<open>Values, exceptions and the Python operations the loader uses\<close>

text \<open>
  The configuration is a YAML document: every value the loader touches is one of the
  shapes below. Mappings keep their insertion order, as Python dictionaries do, so a
  mapping is an association list whose keys are pairwise different; \<open>AList.update\<close>
  is the assignment \<^verbatim>\<open>d[k] = v\<close> (a new key goes to the end, an old key keeps its
  place). Keys of mappings are strings and text is ASCII; floating point numbers are
  left out.

  A function of the source keeps its name, without the leading underscore of the private
  ones: \<open>read_variables\<close> is \<^verbatim>\<open>_read_variables\<close>. A loop of the source is a recursive
  function over the items it visits, named after what it does.
\<close>

datatype pyval =
    PNone
  | PBool bool
  | PInt int
  | PStr string
  | PList "pyval list"
  | PDict "(string \<times> pyval) list"

type_synonym dict = "(string \<times> pyval) list"

text \<open>
  An exception is a value. The two exception classes the loader raises itself carry the
  message the source builds; the other constructors are the built-in exceptions that the
  operations below raise. \<open>OtherError\<close> stands for whatever a collaborator (a file
  read, a parser, a preprocessor) raises.
\<close>

datatype error =
    ConfigurationException string
  | Exception string
  | KeyError pyval
  | TypeError
  | AttributeError
  | ValueError
  | ModuleNotFoundError string
  | OtherError string

definition on_success :: "error + 'a \<Rightarrow> ('a \<Rightarrow> error + 'b) \<Rightarrow> error + 'b" where
  "on_success m f = (case m of Inl e \<Rightarrow> Inl e | Inr x \<Rightarrow> f x)"

text \<open>Truth value testing: \<^verbatim>\<open>if x\<close>, \<^verbatim>\<open>not x\<close>.\<close>

fun truthy :: "pyval \<Rightarrow> bool" where
  "truthy PNone = False"
| "truthy (PBool b) = b"
| "truthy (PInt i) = (i \<noteq> 0)"
| "truthy (PStr s) = (s \<noteq> [])"
| "truthy (PList xs) = (xs \<noteq> [])"
| "truthy (PDict d) = (d \<noteq> [])"

text \<open>
  The operator \<^verbatim>\<open>==\<close>: a boolean equals the integer 0 or 1, lists are compared
  element by element, mappings key by key whatever their order.
\<close>

fun py_eq :: "pyval \<Rightarrow> pyval \<Rightarrow> bool" where
  "py_eq PNone PNone = True"
| "py_eq (PBool a) (PBool b) = (a = b)"
| "py_eq (PBool a) (PInt i) = (i = (if a then 1 else 0))"
| "py_eq (PInt i) (PBool a) = (i = (if a then 1 else 0))"
| "py_eq (PInt i) (PInt j) = (i = j)"
| "py_eq (PStr s) (PStr t) = (s = t)"
| "py_eq (PList xs) (PList ys) = list_all2 py_eq xs ys"
| "py_eq (PDict d) (PDict e) = (length d = length e \<and>
     list_all (\<lambda>(k, v). case map_of e k of None \<Rightarrow> False | Some w \<Rightarrow> py_eq v w) d)"
| "py_eq _ _ = False"

text \<open>\<^verbatim>\<open>x.get(k, default)\<close>: only a mapping has the method.\<close>

definition py_get :: "pyval \<Rightarrow> string \<Rightarrow> pyval \<Rightarrow> error + pyval" where
  "py_get x k dflt = (case x of
       PDict d \<Rightarrow> (case map_of d k of None \<Rightarrow> Inr dflt | Some v \<Rightarrow> Inr v)
     | _ \<Rightarrow> Inl AttributeError)"

text \<open>
  \<^verbatim>\<open>item in container\<close>: a list is searched with \<^verbatim>\<open>==\<close>, a mapping by key (the
  item must be hashable), a string for a substring (the item must be a string); nothing
  else is a container.
\<close>

definition py_contains :: "pyval \<Rightarrow> pyval \<Rightarrow> error + bool" where
  "py_contains container item = (case container of
       PList xs \<Rightarrow> Inr (list_ex (\<lambda>x. py_eq x item) xs)
     | PDict d \<Rightarrow> (case item of
           PStr k \<Rightarrow> Inr (k \<in> set (map fst d))
         | PList _ \<Rightarrow> Inl TypeError
         | PDict _ \<Rightarrow> Inl TypeError
         | _ \<Rightarrow> Inr False)
     | PStr s \<Rightarrow> (case item of PStr t \<Rightarrow> Inr (sublist t s) | _ \<Rightarrow> Inl TypeError)
     | _ \<Rightarrow> Inl TypeError)"

text \<open>\<^verbatim>\<open>x["k"]\<close> with a string key: a string and a list want an integer index.\<close>

definition py_index :: "pyval \<Rightarrow> string \<Rightarrow> error + pyval" where
  "py_index x k = (case x of
       PDict d \<Rightarrow> (case map_of d k of None \<Rightarrow> Inl (KeyError (PStr k)) | Some v \<Rightarrow> Inr v)
     | PStr _ \<Rightarrow> Inl TypeError
     | PList _ \<Rightarrow> Inl TypeError
     | _ \<Rightarrow> Inl TypeError)"

text \<open>\<^verbatim>\<open>x.items()\<close>.\<close>

definition py_items :: "pyval \<Rightarrow> error + dict" where
  "py_items x = (case x of PDict d \<Rightarrow> Inr d | _ \<Rightarrow> Inl AttributeError)"

text \<open>
  \<^verbatim>\<open>for y in x\<close>: the elements of a list, the keys of a mapping, the characters of a
  string; nothing else can be iterated.
\<close>

definition py_iter :: "pyval \<Rightarrow> error + pyval list" where
  "py_iter x = (case x of
       PList xs \<Rightarrow> Inr xs
     | PDict d \<Rightarrow> Inr (map (\<lambda>(k, v). PStr k) d)
     | PStr s \<Rightarrow> Inr (map (\<lambda>c. PStr [c]) s)
     | _ \<Rightarrow> Inl TypeError)"

subsection \<open>Strings\<close>

definition upper_char :: "char \<Rightarrow> char" where
  "upper_char c =
     (case map_of (zip ''abcdefghijklmnopqrstuvwxyz'' ''ABCDEFGHIJKLMNOPQRSTUVWXYZ'') c of
        None \<Rightarrow> c | Some u \<Rightarrow> u)"

text \<open>\<^verbatim>\<open>s.upper()\<close>.\<close>

definition upper :: "string \<Rightarrow> string" where
  "upper s = map upper_char s"

text \<open>\<^verbatim>\<open>s.replace(a, b)\<close> for one-character \<open>a\<close> and \<open>b\<close>.\<close>

definition replace_char :: "char \<Rightarrow> char \<Rightarrow> string \<Rightarrow> string" where
  "replace_char a b s = map (\<lambda>c. if c = a then b else c) s"

text \<open>\<^verbatim>\<open>sep.join(xs)\<close> for strings \<open>xs\<close>.\<close>

fun join :: "string \<Rightarrow> string list \<Rightarrow> string" where
  "join sep [] = []"
| "join sep [x] = x"
| "join sep (x # y # ys) = x @ sep @ join sep (y # ys)"

text \<open>
  \<^verbatim>\<open>s.count(sub)\<close>: the occurrences of \<open>sub\<close> in \<open>s\<close> that do not overlap, from
  the left.
\<close>

fun count_from :: "string \<Rightarrow> string \<Rightarrow> nat" where
  "count_from sub [] = 0"
| "count_from sub (c # cs) =
     (if prefix sub (c # cs) then Suc (count_from sub (drop (length sub - 1) cs))
      else count_from sub cs)"

definition str_count :: "string \<Rightarrow> string \<Rightarrow> nat" where
  "str_count s sub = (if sub = [] then Suc (length s) else count_from sub s)"

text \<open>
  \<^verbatim>\<open>s.rsplit(sep, 1)\<close> for a one-character \<open>sep\<close> that occurs in \<open>s\<close>: the text
  before the last \<open>sep\<close> and the text after it.
\<close>

definition rsplit1 :: "char \<Rightarrow> string \<Rightarrow> string \<times> string" where
  "rsplit1 sep s =
     (rev (drop 1 (dropWhile (\<lambda>c. c \<noteq> sep) (rev s))), rev (takeWhile (\<lambda>c. c \<noteq> sep) (rev s)))"

text \<open>\<^verbatim>\<open>s.split(sep)\<close> for a one-character \<open>sep\<close>.\<close>

fun split_char :: "char \<Rightarrow> string \<Rightarrow> string list" where
  "split_char sep [] = [[]]"
| "split_char sep (c # cs) =
     (if c = sep then [] # split_char sep cs
      else (case split_char sep cs of [] \<Rightarrow> [[c]] | p # ps \<Rightarrow> (c # p) # ps))"

text \<open>
  \<^verbatim>\<open>sep.join(x)\<close> for any value \<open>x\<close>: it must be iterable and every item a string.
\<close>

fun strings_of :: "pyval list \<Rightarrow> error + string list" where
  "strings_of [] = Inr []"
| "strings_of (PStr s # xs) = on_success (strings_of xs) (\<lambda>ss. Inr (s # ss))"
| "strings_of (x # xs) = Inl TypeError"

definition py_join :: "string \<Rightarrow> pyval \<Rightarrow> error + string" where
  "py_join sep x =
     on_success (py_iter x) (\<lambda>xs. on_success (strings_of xs) (\<lambda>ss. Inr (join sep ss)))"

subsection \<open>Text of a value\<close>

text \<open>
  \<^verbatim>\<open>"%s" % v\<close> inserts \<^verbatim>\<open>str(v)\<close>: a string as it is, any other value as Python
  prints it (strings inside lists and mappings quoted and escaped).
\<close>

function digits :: "nat \<Rightarrow> string" where
  "digits n = (if n < 10 then [''0123456789'' ! n]
               else digits (n div 10) @ [''0123456789'' ! (n mod 10)])"
  by pat_completeness auto
termination
  by (relation "measure id") auto

declare digits.simps [simp del]

definition hex2 :: "char \<Rightarrow> string" where
  "hex2 c = [''0123456789abcdef'' ! (of_char c div 16), ''0123456789abcdef'' ! (of_char c mod 16)]"

definition repr_char :: "char \<Rightarrow> char \<Rightarrow> string" where
  "repr_char q c =
     (if c = CHR 0x5C then [CHR 0x5C, CHR 0x5C]
      else if c = q then [CHR 0x5C, q]
      else if c = CHR 0x09 then [CHR 0x5C, CHR ''t'']
      else if c = CHR 0x0A then [CHR 0x5C, CHR ''n'']
      else if c = CHR 0x0D then [CHR 0x5C, CHR ''r'']
      else if (of_char c :: nat) < 32 \<or> (of_char c :: nat) = 127
        then [CHR 0x5C, CHR ''x''] @ hex2 c
      else [c])"

definition repr_str :: "string \<Rightarrow> string" where
  "repr_str s =
     (let q = (if CHR 0x27 \<in> set s \<and> CHR 0x22 \<notin> set s then CHR 0x22 else CHR 0x27)
      in [q] @ concat (map (repr_char q) s) @ [q])"

fun py_repr :: "pyval \<Rightarrow> string" where
  "py_repr PNone = ''None''"
| "py_repr (PBool b) = (if b then ''True'' else ''False'')"
| "py_repr (PInt i) = (if i < 0 then ''-'' @ digits (nat (- i)) else digits (nat i))"
| "py_repr (PStr s) = repr_str s"
| "py_repr (PList xs) = ''['' @ join '', '' (map py_repr xs) @ '']''"
| "py_repr (PDict d) =
     ''{'' @ join '', '' (map (\<lambda>(k, v). repr_str k @ '': '' @ py_repr v) d) @ ''}''"

definition py_str :: "pyval \<Rightarrow> string" where
  "py_str v = (case v of PStr s \<Rightarrow> s | _ \<Rightarrow> py_repr v)"

section \<open>Variable resolver\<close>

text \<open>
  The process environment \<^verbatim>\<open>os.environ\<close> is a finite map from names to strings. Asking
  it for a key that is not a string raises TypeError.
\<close>

type_synonym environ = "string \<rightharpoonup> string"

definition calculate_variable_value ::
    "string \<Rightarrow> pyval \<Rightarrow> dict \<Rightarrow> environ \<Rightarrow> error + pyval" where
  "calculate_variable_value name config provided_variables environ =
     (case map_of provided_variables name of
        Some v \<Rightarrow> Inr v
      | None \<Rightarrow>
          on_success (py_get config ''from'' PNone) (\<lambda>env_name.
          let env_name = (if \<not> truthy env_name
                          then PStr (''VAR_'' @ upper (replace_char CHR ''-'' CHR ''_'' name))
                          else env_name)
          in case env_name of
               PStr e \<Rightarrow>
                 (case environ e of
                    Some v \<Rightarrow> Inr (PStr v)
                  | None \<Rightarrow>
                      on_success (py_contains config (PStr ''default'')) (\<lambda>has_default.
                      if has_default then py_index config ''default'' else Inr PNone))
             | _ \<Rightarrow> Inl TypeError))"

text \<open>
  The body of the loop of \<^verbatim>\<open>_read_variables\<close> for one declared variable: the value,
  the required check, the allow-list check.
\<close>

definition resolve_variable ::
    "string \<Rightarrow> pyval \<Rightarrow> dict \<Rightarrow> environ \<Rightarrow> error + pyval" where
  "resolve_variable name config provided_variables environ =
     on_success (calculate_variable_value name config provided_variables environ) (\<lambda>v.
     on_success (if \<not> truthy v
                 then on_success (py_get config ''required'' (PBool False)) (\<lambda>r. Inr (truthy r))
                 else Inr False) (\<lambda>missing.
     if missing then Inl (ConfigurationException (''Missing required variable '' @ name))
     else
       on_success (py_contains config (PStr ''values'')) (\<lambda>has_values.
       on_success (if has_values
                   then on_success (py_index config ''values'') (\<lambda>allowed.
                        on_success (py_contains allowed v) (\<lambda>found. Inr (\<not> found)))
                   else Inr False) (\<lambda>refused.
       if refused
       then on_success (py_index config ''values'') (\<lambda>allowed.
            on_success (py_join '','' allowed) (\<lambda>possible.
            Inl (ConfigurationException
                  (''Value '' @ [CHR 0x27] @ py_str v @ [CHR 0x27] @ '' not allowed for '' @ name
                   @ ''. Possible values: '' @ possible))))
       else Inr v))))"

fun read_declared :: "dict \<Rightarrow> dict \<Rightarrow> environ \<Rightarrow> dict \<Rightarrow> error + dict" where
  "read_declared [] provided_variables environ resulting_variables = Inr resulting_variables"
| "read_declared ((name, config) # rest) provided_variables environ resulting_variables =
     on_success (resolve_variable name config provided_variables environ) (\<lambda>v.
     read_declared rest provided_variables environ (AList.update name v resulting_variables))"

text \<open>The second loop: a provided variable that was not declared is passed through.\<close>

fun add_provided :: "dict \<Rightarrow> dict \<Rightarrow> dict" where
  "add_provided [] resulting_variables = resulting_variables"
| "add_provided ((name, v) # rest) resulting_variables =
     add_provided rest
       (if name \<notin> set (map fst resulting_variables)
        then AList.update name v resulting_variables else resulting_variables)"

text \<open>The variable container is the mapping \<^verbatim>\<open>resulting_variables\<close>.\<close>

definition read_variables :: "pyval \<Rightarrow> dict \<Rightarrow> environ \<Rightarrow> error + dict" where
  "read_variables variables provided_variables environ =
     on_success (py_items variables) (\<lambda>declared.
     on_success (read_declared declared provided_variables environ []) (\<lambda>resulting_variables.
     Inr (add_provided provided_variables resulting_variables)))"

text \<open>\<^verbatim>\<open>VariableContainer.has\<close> and \<^verbatim>\<open>VariableContainer.get\<close>.\<close>

definition container_has :: "dict \<Rightarrow> string \<Rightarrow> bool" where
  "container_has variables name = (name \<in> set (map fst variables))"

definition container_get :: "dict \<Rightarrow> string \<Rightarrow> pyval" where
  "container_get variables name = (case map_of variables name of None \<Rightarrow> PNone | Some v \<Rightarrow> v)"

section \<open>Template renderer\<close>

text \<open>\<^verbatim>\<open>{**a, **b}\<close>.\<close>

definition dict_merge :: "dict \<Rightarrow> dict \<Rightarrow> dict" where
  "dict_merge a b = fold (\<lambda>(k, v) d. AList.update k v d) b a"

text \<open>
  \<^verbatim>\<open>VariableContainer.render\<close>. The call \<^verbatim>\<open>pystache.render\<close> belongs to a library
  and is a parameter.
\<close>

definition render ::
    "(string \<Rightarrow> dict \<Rightarrow> string) \<Rightarrow> dict \<Rightarrow> string \<Rightarrow> dict \<Rightarrow> error + string" where
  "render pystache_render self_variables text extra_vars =
     (let variables = (if extra_vars \<noteq> [] then dict_merge self_variables extra_vars
                       else self_variables);
          result_text = pystache_render text variables
      in if str_count result_text ''{{'' \<noteq> 0
         then Inl (ConfigurationException ''Unresolved variable'')
         else Inr result_text)"

subsection \<open>The library's renderer on variable tags\<close>

text \<open>
  What \<^verbatim>\<open>pystache.render\<close> does with a template made of literal text and variable
  tags \<^verbatim>\<open>{{name}}\<close>, as the library documents it: a tag is replaced by the text of the
  value of \<open>name\<close> with the HTML special characters escaped, and by nothing when the
  context has no such name (the library's default for missing tags is to ignore them).
  A tag is an opening \<^verbatim>\<open>{{\<close>, at least one character, and the first closing
  \<^verbatim>\<open>}}\<close> after it; the name is what stands between them without the white space
  around it. An opening \<^verbatim>\<open>{{\<close> that starts no tag stays literal text, and so does
  the rest of the template. Sections, partials, comments, unescaped tags, dotted names
  and delimiter changes are outside this model.
\<close>

definition html_escape :: "string \<Rightarrow> string" where
  "html_escape s = concat (map (\<lambda>c.
       if c = CHR ''&'' then ''&amp;''
       else if c = CHR ''<'' then ''&lt;''
       else if c = CHR ''>'' then ''&gt;''
       else if c = CHR 0x22 then ''&quot;''
       else if c = CHR 0x27 then ''&#x27;''
       else [c]) s)"

text \<open>White space: the characters that \<^verbatim>\<open>str.strip()\<close> removes.\<close>

definition is_space :: "char \<Rightarrow> bool" where
  "is_space c = (c \<in> set [CHR 0x20, CHR 0x09, CHR 0x0A, CHR 0x0B, CHR 0x0C, CHR 0x0D,
                           CHR 0x1C, CHR 0x1D, CHR 0x1E, CHR 0x1F])"

definition strip_spaces :: "string \<Rightarrow> string" where
  "strip_spaces s = rev (dropWhile is_space (rev (dropWhile is_space s)))"

text \<open>\<open>closes s\<close>: a closing \<^verbatim>\<open>}}\<close> occurs in \<open>s\<close>.\<close>

fun closes :: "string \<Rightarrow> bool" where
  "closes [] = False"
| "closes [c] = False"
| "closes (c # d # cs) = (c = CHR ''}'' \<and> d = CHR ''}'' \<or> closes (d # cs))"

text \<open>
  \<open>mustache_text\<close> copies literal text; at an opening \<^verbatim>\<open>{{\<close> followed by a character
  \<open>k\<close> and, later, a closing \<^verbatim>\<open>}}\<close>, \<open>mustache_tag\<close> collects the characters up to
  that closing and puts the value of the name in their place.
\<close>

fun mustache_text :: "dict \<Rightarrow> string \<Rightarrow> string"
  and mustache_tag :: "dict \<Rightarrow> string \<Rightarrow> string \<Rightarrow> string" where
  "mustache_text variables [] = []"
| "mustache_text variables [c] = [c]"
| "mustache_text variables [c, d] = [c, d]"
| "mustache_text variables (c # d # k # cs) =
     (if c = CHR ''{'' \<and> d = CHR ''{'' then
        (if closes cs then mustache_tag variables [k] cs else c # d # k # cs)
      else c # mustache_text variables (d # k # cs))"
| "mustache_tag variables key [] = []"
| "mustache_tag variables key [c] = []"
| "mustache_tag variables key (c # d # cs) =
     (if c = CHR ''}'' \<and> d = CHR ''}'' then
        (case map_of variables (strip_spaces key) of
           None \<Rightarrow> []
         | Some v \<Rightarrow> html_escape (py_str v)) @ mustache_text variables cs
      else mustache_tag variables (key @ [c]) (d # cs))"

definition mustache_render :: "string \<Rightarrow> dict \<Rightarrow> string" where
  "mustache_render text variables = mustache_text variables text"

section \<open>Condition evaluator\<close>

fun only_fails :: "dict \<Rightarrow> dict \<Rightarrow> bool" where
  "only_fails variables [] = False"
| "only_fails variables ((var, expected) # rest) =
     (if \<not> container_has variables var then True
      else if \<not> py_eq (container_get variables var) expected then True
      else only_fails variables rest)"

fun except_hits :: "dict \<Rightarrow> dict \<Rightarrow> bool" where
  "except_hits variables [] = False"
| "except_hits variables ((var, excluded) # rest) =
     (if container_has variables var \<and> py_eq (container_get variables var) excluded then True
      else except_hits variables rest)"

definition check_conditions_apply :: "dict \<Rightarrow> pyval \<Rightarrow> pyval \<Rightarrow> error + bool" where
  "check_conditions_apply variables restriction_only restriction_except =
     on_success (if truthy restriction_only
                 then on_success (py_items restriction_only) (\<lambda>entries.
                      Inr (only_fails variables entries))
                 else Inr False) (\<lambda>skip.
     if skip then Inr True
     else if truthy restriction_except
       then on_success (py_items restriction_except) (\<lambda>entries.
            Inr (except_hits variables entries))
       else Inr False)"

section \<open>Module registry\<close>

text \<open>
  The helper handed to every parser and preprocessor: the variable container and the
  directory of the root document.
\<close>

record config_helper =
  variables_container :: dict
  base_path :: string

text \<open>
  An entity-type module, as the registry reads it. An attribute that the module does not
  have is \<open>None\<close>, and reading it raises AttributeError: \<^verbatim>\<open>__config__\<close>,
  \<^verbatim>\<open>__manager__\<close> (calling it builds the manager or raises), \<^verbatim>\<open>__config_name__\<close>,
  \<^verbatim>\<open>parse_config\<close> and the optional \<^verbatim>\<open>preprocess_config\<close>. Parsers and
  preprocessors are collaborators: they return a result or raise.
\<close>

record ('obj, 'mgr) py_module =
  config_key :: "string option"
  manager :: "(error + 'mgr) option"
  config_name :: "string option"
  parse_config :: "(string \<Rightarrow> pyval \<Rightarrow> config_helper \<Rightarrow> error + 'obj) option"
  preprocess_config ::
    "(string \<Rightarrow> pyval \<Rightarrow> config_helper \<Rightarrow> error + (string \<times> pyval) list) option"

record 'obj module_entry =
  parser :: "string \<Rightarrow> pyval \<Rightarrow> config_helper \<Rightarrow> error + 'obj"
  preprocesser ::
    "(string \<Rightarrow> pyval \<Rightarrow> config_helper \<Rightarrow> error + (string \<times> pyval) list) option"

definition STANDARD_MODULES :: "string list" where
  "STANDARD_MODULES =
     [''dcosdeploy.modules.accounts'',
      ''dcosdeploy.modules.secrets'',
      ''dcosdeploy.modules.jobs'',
      ''dcosdeploy.modules.apps'',
      ''dcosdeploy.modules.frameworks'',
      ''dcosdeploy.modules.certs'',
      ''dcosdeploy.modules.repositories'',
      ''dcosdeploy.modules.edgelb'',
      ''dcosdeploy.modules.s3'']"

text \<open>
  \<^verbatim>\<open>importlib.import_module\<close> is a parameter: given the directories put in front of
  \<^verbatim>\<open>sys.path\<close> so far and a module name it returns the module or raises, and what it
  raises is its own affair (ModuleNotFoundError for a module that does not exist,
  ValueError for an empty name, TypeError for a relative name, or what the code of the
  module raises while it is loaded).
\<close>

type_synonym ('obj, 'mgr) importer =
  "string list \<Rightarrow> string \<Rightarrow> error + ('obj, 'mgr) py_module"

text \<open>
  The two assignments of the loop body. Python evaluates the right-hand side of an
  assignment before the subscript of its target: \<^verbatim>\<open>module.__manager__()\<close> before
  \<^verbatim>\<open>module.__config__\<close>, and \<^verbatim>\<open>module.parse_config\<close> before
  \<^verbatim>\<open>module.__config_name__\<close>.
\<close>

definition register_module ::
    "('obj, 'mgr) py_module \<Rightarrow> (string \<times> 'mgr) list \<times> (string \<times> 'obj module_entry) list \<Rightarrow>
     error + ((string \<times> 'mgr) list \<times> (string \<times> 'obj module_entry) list)" where
  "register_module m st = (case st of (managers, modules) \<Rightarrow>
     (case manager m of
        None \<Rightarrow> Inl AttributeError
      | Some made \<Rightarrow>
          on_success made (\<lambda>mgr.
          case config_key m of
            None \<Rightarrow> Inl AttributeError
          | Some key \<Rightarrow>
              (case parse_config m of
                 None \<Rightarrow> Inl AttributeError
               | Some parse \<Rightarrow>
                   (case config_name m of
                      None \<Rightarrow> Inl AttributeError
                    | Some type_name \<Rightarrow>
                        Inr (AList.update key mgr managers,
                             AList.update type_name
                               \<lparr>parser = parse, preprocesser = preprocess_config m\<rparr>
                               modules))))))"

text \<open>
  The loop of \<^verbatim>\<open>_init_modules\<close>. Its state is the search path and the two mappings
  under construction.
\<close>

fun load_modules ::
    "('obj, 'mgr) importer \<Rightarrow> pyval list \<Rightarrow>
     string list \<times> (string \<times> 'mgr) list \<times> (string \<times> 'obj module_entry) list \<Rightarrow>
     error + (string list \<times> (string \<times> 'mgr) list \<times> (string \<times> 'obj module_entry) list)" where
  "load_modules import_module [] st = Inr st"
| "load_modules import_module (PStr module_path # rest) (sys_path, managers, modules) =
     on_success
       (if CHR '':'' \<in> set module_path
        then (case split_char CHR '':'' module_path of
                [base, module_name] \<Rightarrow> Inr (base # sys_path, module_name)
              | _ \<Rightarrow> Inl ValueError)
        else Inr (sys_path, module_path)) (\<lambda>(sys_path', module_name).
     on_success (import_module sys_path' module_name) (\<lambda>m.
     on_success (register_module m (managers, modules)) (\<lambda>(managers', modules').
     load_modules import_module rest (sys_path', managers', modules'))))"
| "load_modules import_module (PList xs # rest) st = Inl AttributeError"
| "load_modules import_module (PDict d # rest) st = Inl AttributeError"
| "load_modules import_module (x # rest) st = Inl TypeError"

text \<open>
  \<^verbatim>\<open>_init_modules\<close>: \<^verbatim>\<open>STANDARD_MODULES + additional_modules\<close> wants a list on the
  right.
\<close>

definition init_modules ::
    "('obj, 'mgr) importer \<Rightarrow> pyval \<Rightarrow>
     error + ((string \<times> 'mgr) list \<times> (string \<times> 'obj module_entry) list)" where
  "init_modules import_module additional_modules =
     (case additional_modules of
        PList extra \<Rightarrow>
          on_success (load_modules import_module (map PStr STANDARD_MODULES @ extra) ([], [], []))
            (\<lambda>(sys_path, managers, modules). Inr (managers, modules))
      | _ \<Rightarrow> Inl TypeError)"

section \<open>Dependency graph builder\<close>

text \<open>
  A deployment object is opaque; \<^verbatim>\<open>if not dependency_object\<close> asks for its truth
  value, which is a parameter (\<open>obj_truthy\<close>).
\<close>

definition split_dependency :: "string \<Rightarrow> string \<times> string" where
  "split_dependency dependency =
     (if str_count dependency '':'' > 0 then rsplit1 CHR '':'' dependency
      else (dependency, ''create''))"

fun resolve_dependencies ::
    "('obj \<Rightarrow> bool) \<Rightarrow> (string \<times> 'obj) list \<Rightarrow> pyval list \<Rightarrow>
     error + (string \<times> 'obj \<times> string) list" where
  "resolve_dependencies obj_truthy config [] = Inr []"
| "resolve_dependencies obj_truthy config (PStr d # rest) =
     (case split_dependency d of (dependency, dep_type) \<Rightarrow>
        (case map_of config dependency of
           None \<Rightarrow> Inl (Exception (''Could not find '' @ dependency))
         | Some dependency_object \<Rightarrow>
             if \<not> obj_truthy dependency_object
             then Inl (Exception (''Could not find '' @ dependency))
             else on_success (resolve_dependencies obj_truthy config rest) (\<lambda>dependencies.
                  Inr ((dependency, dependency_object, dep_type) # dependencies))))"
| "resolve_dependencies obj_truthy config (PList xs # rest) =
     (if list_ex (\<lambda>x. py_eq x (PStr '':'')) xs then Inl AttributeError else Inl TypeError)"
| "resolve_dependencies obj_truthy config (x # rest) = Inl AttributeError"

fun build_entries ::
    "('obj \<Rightarrow> bool) \<Rightarrow> (string \<times> 'obj) list \<Rightarrow> dict \<Rightarrow>
     (string \<times> (string \<times> 'obj \<times> string) list) list \<Rightarrow>
     error + (string \<times> (string \<times> 'obj \<times> string) list) list" where
  "build_entries obj_truthy config [] resulting_dependencies = Inr resulting_dependencies"
| "build_entries obj_truthy config ((name, string_dependencies) # rest) resulting_dependencies =
     on_success (py_iter string_dependencies) (\<lambda>items.
     on_success (resolve_dependencies obj_truthy config items) (\<lambda>dependencies.
     build_entries obj_truthy config rest
       (AList.update name dependencies resulting_dependencies)))"

definition build_dependency_tree ::
    "('obj \<Rightarrow> bool) \<Rightarrow> dict \<Rightarrow> (string \<times> 'obj) list \<Rightarrow>
     error + (string \<times> (string \<times> 'obj \<times> string) list) list" where
  "build_dependency_tree obj_truthy dependencies_map config =
     build_entries obj_truthy config dependencies_map []"

section \<open>Entity pipeline\<close>

text \<open>\<^verbatim>\<open>modules[entity_config["type"]]\<close>.\<close>

definition lookup_module ::
    "(string \<times> 'obj module_entry) list \<Rightarrow> pyval \<Rightarrow> error + 'obj module_entry" where
  "lookup_module modules entity_config =
     on_success (py_index entity_config ''type'') (\<lambda>t.
     case t of
       PStr type_name \<Rightarrow>
         (case map_of modules type_name of None \<Rightarrow> Inl (KeyError t) | Some m \<Rightarrow> Inr m)
     | PList _ \<Rightarrow> Inl TypeError
     | PDict _ \<Rightarrow> Inl TypeError
     | _ \<Rightarrow> Inl (KeyError t))"

text \<open>
  The inner loop, over the entities of one section. The state is the pair of
  \<^verbatim>\<open>deployment_objects\<close> and \<^verbatim>\<open>deployment_dependencies\<close>.
\<close>

fun process_entities ::
    "(string \<Rightarrow> pyval \<Rightarrow> config_helper \<Rightarrow> error + 'obj) \<Rightarrow> dict \<Rightarrow> config_helper \<Rightarrow>
     (string \<times> pyval) list \<Rightarrow> (string \<times> 'obj) list \<times> dict \<Rightarrow>
     error + ((string \<times> 'obj) list \<times> dict)" where
  "process_entities parse_config_func variables helper [] st = Inr st"
| "process_entities parse_config_func variables helper ((name, entity_config) # rest)
       (deployment_objects, deployment_dependencies) =
     on_success (py_get entity_config ''only'' (PDict [])) (\<lambda>only_restriction.
     on_success (py_get entity_config ''except'' (PDict [])) (\<lambda>except_restriction.
     on_success (check_conditions_apply variables only_restriction except_restriction) (\<lambda>skip.
     if skip
     then process_entities parse_config_func variables helper rest
            (deployment_objects, deployment_dependencies)
     else
       on_success (py_get entity_config ''dependencies'' PNone) (\<lambda>dependencies.
       on_success (parse_config_func name entity_config helper) (\<lambda>deployment_object.
       process_entities parse_config_func variables helper rest
         (AList.update name deployment_object deployment_objects,
          if truthy dependencies
          then AList.update name dependencies deployment_dependencies
          else deployment_dependencies))))))"

text \<open>The outer loop, over the items of the configuration.\<close>

fun read_sections ::
    "(string \<times> 'obj module_entry) list \<Rightarrow> dict \<Rightarrow> config_helper \<Rightarrow> dict \<Rightarrow>
     (string \<times> 'obj) list \<times> dict \<Rightarrow> error + ((string \<times> 'obj) list \<times> dict)" where
  "read_sections modules variables helper [] st = Inr st"
| "read_sections modules variables helper ((name, entity_config) # rest) st =
     (if name \<in> set [''variables'', ''modules'', ''includes'']
      then read_sections modules variables helper rest st
      else
        on_success (lookup_module modules entity_config) (\<lambda>m.
        on_success (case preprocesser m of
                      None \<Rightarrow> Inr [(name, entity_config)]
                    | Some preprocess_config_func \<Rightarrow>
                        preprocess_config_func name entity_config helper) (\<lambda>entities.
        on_success (process_entities (parser m) variables helper entities st) (\<lambda>st'.
        read_sections modules variables helper rest st'))))"

definition read_config_entities ::
    "('obj \<Rightarrow> bool) \<Rightarrow> (string \<times> 'obj module_entry) list \<Rightarrow> dict \<Rightarrow> dict \<Rightarrow>
     config_helper \<Rightarrow>
     error + ((string \<times> 'obj) list \<times> (string \<times> (string \<times> 'obj \<times> string) list) list)" where
  "read_config_entities obj_truthy modules variables config helper =
     on_success (read_sections modules variables helper config ([], []))
       (\<lambda>(deployment_objects, deployment_dependencies).
     on_success (build_dependency_tree obj_truthy deployment_dependencies deployment_objects)
       (\<lambda>dependencies.
     Inr (deployment_objects, dependencies)))"

section \<open>Config loader\<close>

text \<open>
  What the loader asks of its surroundings: the process environment, the path functions
  of \<^verbatim>\<open>os.path\<close>, the YAML reader \<^verbatim>\<open>read_yaml\<close> of the package's \<^verbatim>\<open>util\<close> module
  (it returns the document at a path or raises), the module importer (it returns the
  module or raises) and the truth value of a deployment object.
\<close>

record ('obj, 'mgr) world =
  os_environ :: environ
  abspath :: "string \<Rightarrow> string"
  dirname :: "string \<Rightarrow> string"
  path_join :: "string \<Rightarrow> string \<Rightarrow> string"
  read_yaml :: "string \<Rightarrow> error + pyval"
  import_module :: "('obj, 'mgr) importer"
  obj_truthy :: "'obj \<Rightarrow> bool"

text \<open>The inner loop of the include merge: the items of one included document.\<close>

fun merge_items :: "string \<Rightarrow> dict \<Rightarrow> dict \<Rightarrow> error + dict" where
  "merge_items include [] config = Inr config"
| "merge_items include ((key, values) # rest) config =
     (if key \<in> set (map fst config)
      then Inl (ConfigurationException
                 (key @ '' found in base config and include file '' @ include))
      else merge_items include rest (AList.update key values config))"

text \<open>The outer loop, over \<^verbatim>\<open>config.get("includes", list())\<close>.\<close>

fun merge_includes ::
    "('obj, 'mgr) world \<Rightarrow> string \<Rightarrow> pyval list \<Rightarrow> dict \<Rightarrow> error + dict" where
  "merge_includes w base [] config = Inr config"
| "merge_includes w base (PStr include # rest) config =
     on_success (read_yaml w (abspath w (path_join w base include))) (\<lambda>additional_configs.
     on_success (py_items additional_configs) (\<lambda>entries.
     on_success (merge_items include entries config) (\<lambda>config'.
     merge_includes w base rest config')))"
| "merge_includes w base (x # rest) config = Inl TypeError"

definition read_config ::
    "('obj, 'mgr) world \<Rightarrow> string \<Rightarrow> dict \<Rightarrow>
     error + ((string \<times> 'obj) list \<times> (string \<times> (string \<times> 'obj \<times> string) list) list
              \<times> (string \<times> 'mgr) list)" where
  "read_config w filename provided_variables =
     (let root = abspath w filename; base = dirname w root in
      on_success (read_yaml w root) (\<lambda>document.
      on_success (py_get document ''variables'' (PDict [])) (\<lambda>declared.
      on_success (read_variables declared provided_variables (os_environ w)) (\<lambda>variables.
      let helper = \<lparr>variables_container = variables, base_path = base\<rparr> in
      on_success (py_items document) (\<lambda>config.
      on_success (py_get document ''includes'' (PList [])) (\<lambda>includes.
      on_success (py_iter includes) (\<lambda>include_list.
      on_success (merge_includes w base include_list config) (\<lambda>config.
      on_success (py_get (PDict config) ''modules'' (PList [])) (\<lambda>additional_modules.
      on_success (init_modules (import_module w) additional_modules) (\<lambda>(managers, modules).
      on_success (read_config_entities (obj_truthy w) modules variables config helper)
        (\<lambda>(deployment_objects, dependencies).
      Inr (deployment_objects, dependencies, managers))))))))))))"

section \<open>Notions for stating the properties\<close>

subsection \<open>The precedence rule as the specification words it\<close>

text \<open>
  The first source that has a value wins: the caller's value for the name, then the
  environment variable named by \<open>from\<close> (a name derived from the variable's name
  when \<open>from\<close> is absent), then the default; otherwise the value is None.
\<close>

definition derived_env_name :: "string \<Rightarrow> string" where
  "derived_env_name name = ''VAR_'' @ upper (replace_char CHR ''-'' CHR ''_'' name)"

fun first_match :: "pyval option list \<Rightarrow> pyval" where
  "first_match [] = PNone"
| "first_match (None # srcs) = first_match srcs"
| "first_match (Some v # srcs) = v"

definition spec_variable_value ::
    "string \<Rightarrow> string option \<Rightarrow> pyval option \<Rightarrow> dict \<Rightarrow> environ \<Rightarrow> pyval" where
  "spec_variable_value name from_field default_field provided_variables environ =
     first_match
       [map_of provided_variables name,
        map_option PStr
          (environ (case from_field of None \<Rightarrow> derived_env_name name | Some f \<Rightarrow> f)),
        default_field]"

text \<open>
  The \<open>from\<close> field as the source reads it: an empty string and \<^verbatim>\<open>null\<close> count as
  no field at all.
\<close>

definition effective_from :: "dict \<Rightarrow> string option" where
  "effective_from c = (case map_of c ''from'' of
       Some (PStr f) \<Rightarrow> (if f = [] then None else Some f)
     | _ \<Rightarrow> None)"

definition from_is_text :: "dict \<Rightarrow> bool" where
  "from_is_text c = (case map_of c ''from'' of
       None \<Rightarrow> True | Some PNone \<Rightarrow> True | Some (PStr f) \<Rightarrow> True | _ \<Rightarrow> False)"

subsection \<open>The entities behind the dependency graph\<close>








subsection \<open>The resolution of a dependency string\<close>

text \<open>
  A dependency string is found when its target names a deployment object that is true
  as a condition; it then resolves to the triple of target name, object and kind.
\<close>

definition dependency_found :: "('obj \<Rightarrow> bool) \<Rightarrow> (string \<times> 'obj) list \<Rightarrow> string \<Rightarrow> bool" where
  "dependency_found t objs d =
     (case map_of objs (fst (split_dependency d)) of None \<Rightarrow> False | Some obj \<Rightarrow> t obj)"

definition resolved_dependency ::
    "(string \<times> 'obj) list \<Rightarrow> string \<Rightarrow> (string \<times> 'obj \<times> string) option" where
  "resolved_dependency objs d =
     (case split_dependency d of (target, kind) \<Rightarrow>
        map_option (\<lambda>obj. (target, obj, kind)) (map_of objs target))"

subsection \<open>Kinds of failure\<close>

text \<open>
  A declaration is well formed when it is a mapping whose \<open>from\<close> is absent,
  \<^verbatim>\<open>null\<close> or a string and whose \<open>values\<close>, when present, is a list of strings.
\<close>

definition is_configuration_error :: "error \<Rightarrow> bool" where
  "is_configuration_error e = (case e of ConfigurationException message \<Rightarrow> True | _ \<Rightarrow> False)"

fun is_text :: "pyval \<Rightarrow> bool" where
  "is_text (PStr s) = True"
| "is_text v = False"

definition values_are_text :: "dict \<Rightarrow> bool" where
  "values_are_text c = (case map_of c ''values'' of
       None \<Rightarrow> True
     | Some (PList allowed) \<Rightarrow> list_all is_text allowed
     | Some v \<Rightarrow> False)"

definition well_formed_declaration :: "pyval \<Rightarrow> bool" where
  "well_formed_declaration config =
     (case config of PDict c \<Rightarrow> from_is_text c \<and> values_are_text c | _ \<Rightarrow> False)"

subsection \<open>Configurations that differ in a variables section only\<close>

text \<open>
  Two configurations are the same but for their variables when they have the same keys
  in the same order and the same value under every key other than \<open>variables\<close>;
  two outcomes of a merge are the same when they are the same error or such
  configurations.
\<close>

definition same_but_variables :: "dict \<Rightarrow> dict \<Rightarrow> bool" where
  "same_but_variables c c' =
     list_all2 (\<lambda>(k, v) (k', v'). k = k' \<and> (k \<noteq> ''variables'' \<longrightarrow> v = v')) c c'"

definition same_outcome :: "error + dict \<Rightarrow> error + dict \<Rightarrow> bool" where
  "same_outcome r r' = (case (r, r') of
       (Inl e, Inl e') \<Rightarrow> e = e'
     | (Inr c, Inr c') \<Rightarrow> same_but_variables c c'
     | _ \<Rightarrow> False)"

section \<open>Example configurations\<close>

text \<open>
  What \<^verbatim>\<open>importlib.import_module\<close> raises for a name that is no module of the
  world: ValueError for the empty name, TypeError for a relative name (no package is
  given), ModuleNotFoundError for any other.
\<close>

definition import_error :: "string \<Rightarrow> error" where
  "import_error name =
     (if name = [] then ValueError
      else if hd name = CHR ''.'' then TypeError
      else ModuleNotFoundError name)"

text \<open>
  A root document and an included document that both declare the top-level key
  \<open>jobs\<close>.
\<close>

definition two_jobs_world :: "(nat, nat) world" where
  "two_jobs_world =
     \<lparr>os_environ = Map.empty,
      abspath = (\<lambda>path. path),
      dirname = (\<lambda>path. ''/etc''),
      path_join = (\<lambda>a b. a @ ''/'' @ b),
      read_yaml = (\<lambda>path.
        if path = ''/etc/root.yml''
          then Inr (PDict [(''includes'', PList [PStr ''extra.yml'']), (''jobs'', PDict [])])
        else if path = ''/etc/extra.yml''
          then Inr (PDict [(''jobs'', PDict [])])
        else Inl (OtherError ''No such file'')),
      import_module = (\<lambda>sys_path name. Inl (import_error name)),
      obj_truthy = (\<lambda>obj. True)\<rparr>"


definition app_modules :: "(string \<times> nat module_entry) list" where
  "app_modules =
     [(''app'', \<lparr>parser = \<lambda>name entity_config helper. Inr 7, preprocesser = None\<rparr>)]"

text \<open>
  A world with one file, the root document, in which the built-in modules can be
  imported (their type name is the last part of the module name) and no other.
\<close>

definition single_file_world :: "pyval \<Rightarrow> (nat, nat) world" where
  "single_file_world document =
     \<lparr>os_environ = Map.empty,
      abspath = (\<lambda>path. path),
      dirname = (\<lambda>path. ''/etc''),
      path_join = (\<lambda>a b. a @ ''/'' @ b),
      read_yaml = (\<lambda>path.
        if path = ''/etc/root.yml'' then Inr document else Inl (OtherError ''No such file'')),
      import_module = (\<lambda>sys_path name.
        if name \<in> set STANDARD_MODULES
        then Inr \<lparr>config_key = Some name, manager = Some (Inr 0),
                   config_name = Some (drop (length ''dcosdeploy.modules.'') name),
                   parse_config = Some (\<lambda>name entity_config helper. Inr 7),
                   preprocess_config = None\<rparr>
        else Inl (import_error name)),
      obj_truthy = (\<lambda>obj. True)\<rparr>"

text \<open>
  A root document without variables that includes a document whose only item is a
  \<open>variables\<close> section declaring a required variable.
\<close>

definition include_variables_world :: "(nat, nat) world" where
  "include_variables_world =
     (single_file_world
        (PDict [(''includes'', PList [PStr ''extra.yml'']),
                (''db'', PDict [(''type'', PStr ''apps'')])]))
     \<lparr>read_yaml :=
        (read_yaml (single_file_world
           (PDict [(''includes'', PList [PStr ''extra.yml'']),
                   (''db'', PDict [(''type'', PStr ''apps'')])])))
        (''/etc/extra.yml'' :=
           Inr (PDict [(''variables'', PDict [(''token'', PDict [(''required'', PBool True)])])]))\<rparr>"

section \<open>Properties\<close>

lemma on_success_simps [simp]:
  "on_success (Inl e) f = Inl e"
  "on_success (Inr x) f = f x"
  by (simp_all add: on_success_def)

lemma dict_contains_key [simp]:
  "py_contains (PDict d) (PStr k) = Inr (map_of d k \<noteq> None)"
  by (simp add: py_contains_def map_of_eq_None_iff)

lemma dict_get_simp [simp]:
  "py_get (PDict d) k dflt = Inr (case map_of d k of None \<Rightarrow> dflt | Some v \<Rightarrow> v)"
  by (simp add: py_get_def split: option.split)

lemma dict_index_simp [simp]:
  "py_index (PDict d) k = (case map_of d k of None \<Rightarrow> Inl (KeyError (PStr k)) | Some v \<Rightarrow> Inr v)"
  by (simp add: py_index_def)

lemma list_contains [simp]:
  "py_contains (PList xs) v = Inr (list_ex (\<lambda>x. py_eq x v) xs)"
  by (simp add: py_contains_def)

lemma list_iter [simp]: "py_iter (PList xs) = Inr xs"
  by (simp add: py_iter_def)

lemma dict_items [simp]: "py_items (PDict d) = Inr d"
  by (simp add: py_items_def)

lemma on_success_Inl_iff:
  "(on_success m f = Inl e) = (m = Inl e \<or> (\<exists>x. m = Inr x \<and> f x = Inl e))"
  by (cases m) auto

lemma on_success_Inr_iff:
  "(on_success m f = Inr y) = (\<exists>x. m = Inr x \<and> f x = Inr y)"
  by (cases m) auto

lemma update_new_key:
  "k \<notin> fst ` set config \<Longrightarrow> AList.update k v config = config @ [(k, v)]"
  by (induction config) auto

lemma find_append_first:
  "find P (xs @ ys) = (case find P xs of None \<Rightarrow> find P ys | Some x \<Rightarrow> Some x)"
  by (induction xs) auto

subsection \<open>Variable resolver\<close>

text \<open>
  C1, as stated: the value is the first match among the caller's value, the environment
  variable named by \<open>from\<close> (the derived name only when \<open>from\<close> is absent) and the
  default. It fails for a declaration whose \<open>from\<close> is the empty string: the source
  tests \<^verbatim>\<open>not env_name\<close> and falls back to the derived name, where the claim reads
  the environment variable named by the (empty) field and so arrives at the default.
\<close>

theorem calculate_variable_value_empty_from:
  "calculate_variable_value ''x'' (PDict [(''from'', PStr ''''), (''default'', PStr ''d'')])
       [] (map_of [(''VAR_X'', ''e'')]) = Inr (PStr ''e'')
   \<and> spec_variable_value ''x'' (Some '''') (Some (PStr ''d'')) [] (map_of [(''VAR_X'', ''e'')])
       = PStr ''d''"
  by (simp add: calculate_variable_value_def spec_variable_value_def upper_def
      upper_char_def replace_char_def)

text \<open>
  C1, amended: for a declaration whose \<open>from\<close> is absent, \<^verbatim>\<open>null\<close> or a string, the
  value is the first match among the caller's value for the name, the environment
  variable named by a non-empty \<open>from\<close> (by \<open>VAR_\<close> and the upper-cased name with
  \<open>-\<close> replaced by \<open>_\<close> when \<open>from\<close> is absent, \<^verbatim>\<open>null\<close> or empty), and the declared
  default; it is None when none of them has a value.
\<close>

theorem calculate_variable_value_precedence:
  assumes "from_is_text c"
  shows "calculate_variable_value name (PDict c) provided_variables environ =
     Inr (spec_variable_value name (effective_from c) (map_of c ''default'')
            provided_variables environ)"
proof (cases "map_of provided_variables name")
  case (Some v)
  then show ?thesis
    by (simp add: calculate_variable_value_def spec_variable_value_def)
next
  case None
  show ?thesis
  proof (cases "map_of c ''from''")
    case no_from: None
    then show ?thesis using None
      by (simp add: calculate_variable_value_def spec_variable_value_def effective_from_def
          derived_env_name_def split: option.split)
  next
    case (Some f)
    with assms have "f = PNone \<or> (\<exists>s. f = PStr s)"
      by (auto simp: from_is_text_def split: pyval.splits)
    then show ?thesis using None Some
      by (auto simp: calculate_variable_value_def spec_variable_value_def effective_from_def
          derived_env_name_def split: option.split)
  qed
qed

theorem calculate_variable_value_precedence_witness:
  "from_is_text [(''from'', PStr ''REGION''), (''default'', PStr ''us-east'')]
   \<and> calculate_variable_value ''region''
        (PDict [(''from'', PStr ''REGION''), (''default'', PStr ''us-east'')])
        [] (map_of [(''REGION'', ''eu-west'')]) = Inr (PStr ''eu-west'')
   \<and> calculate_variable_value ''region''
        (PDict [(''from'', PStr ''REGION''), (''default'', PStr ''us-east'')])
        [(''region'', PStr ''ap-south'')] (map_of [(''REGION'', ''eu-west'')])
      = Inr (PStr ''ap-south'')"
proof -
  let ?c = "[(''from'', PStr ''REGION''), (''default'', PStr ''us-east'')]"
  have h: "from_is_text ?c"
    by (simp add: from_is_text_def)
  from calculate_variable_value_precedence [OF h, of "''region''" "[]"
      "map_of [(''REGION'', ''eu-west'')]"]
    calculate_variable_value_precedence [OF h, of "''region''" "[(''region'', PStr ''ap-south'')]"
      "map_of [(''REGION'', ''eu-west'')]"]
  show ?thesis using h
    by (simp add: spec_variable_value_def effective_from_def)
qed

text \<open>
  The loop over the declared variables runs the variables before a failing one first:
  it fails whenever one of them fails, and with the error of the first that does.
\<close>

lemma read_declared_append:
  "read_declared (pre @ rest) pv env acc =
     on_success (read_declared pre pv env acc) (\<lambda>acc'. read_declared rest pv env acc')"
proof (induction pre arbitrary: acc)
  case Nil
  show ?case by simp
next
  case (Cons p pre)
  obtain name config where p: "p = (name, config)" by (cases p)
  show ?case
    by (cases "resolve_variable name config pv env") (simp_all add: p Cons.IH)
qed

lemma read_declared_fails_at:
  assumes "resolve_variable name config pv env = Inl e"
  shows "\<exists>e'. read_declared (pre @ (name, config) # post) pv env acc = Inl e'"
  using assms
  by (cases "read_declared pre pv env acc") (simp_all add: read_declared_append)

lemma read_declared_first_failure:
  assumes "read_declared pre pv env acc = Inr acc'"
    and "resolve_variable name config pv env = Inl e"
  shows "read_declared (pre @ (name, config) # post) pv env acc = Inl e"
  using assms by (simp add: read_declared_append)

lemma resolve_variable_required:
  assumes "map_of c ''required'' = Some r" and "truthy r"
    and "calculate_variable_value name (PDict c) pv env = Inr v" and "\<not> truthy v"
  shows "resolve_variable name (PDict c) pv env =
           Inl (ConfigurationException (''Missing required variable '' @ name))"
  using assms by (simp add: resolve_variable_def)

text \<open>
  C4: a variable declared required whose computed value is empty or absent (None, the
  empty string, any value Python takes for false) makes variable resolution fail; when
  the variables declared before it resolve, the failure is the ConfigurationException
  \<open>Missing required variable\<close> followed by the variable's name.
\<close>

theorem required_variable_missing:
  assumes "map_of c ''required'' = Some r" and "truthy r"
    and "calculate_variable_value name (PDict c) pv env = Inr v" and "\<not> truthy v"
  shows "(\<exists>e. read_variables (PDict (pre @ (name, PDict c) # post)) pv env = Inl e)
    \<and> ((\<exists>acc. read_declared pre pv env [] = Inr acc) \<longrightarrow>
         read_variables (PDict (pre @ (name, PDict c) # post)) pv env =
           Inl (ConfigurationException (''Missing required variable '' @ name)))"
proof -
  note step = resolve_variable_required [OF assms]
  from read_declared_fails_at [OF step]
  obtain e' where "read_declared (pre @ (name, PDict c) # post) pv env [] = Inl e'"
    by blast
  then have first: "\<exists>e. read_variables (PDict (pre @ (name, PDict c) # post)) pv env = Inl e"
    by (simp add: read_variables_def)
  have second: "read_variables (PDict (pre @ (name, PDict c) # post)) pv env =
           Inl (ConfigurationException (''Missing required variable '' @ name))"
    if "read_declared pre pv env [] = Inr acc" for acc
    using read_declared_first_failure [OF that step]
    by (simp add: read_variables_def)
  from first second show ?thesis by blast
qed

theorem required_variable_missing_witness:
  "read_variables
     (PDict [(''region'', PDict [(''default'', PStr ''us-east'')]),
             (''token'', PDict [(''required'', PBool True)]),
             (''other'', PDict [])]) [] Map.empty
     = Inl (ConfigurationException ''Missing required variable token'')
   \<and> read_variables
     (PDict [(''token'', PDict [(''required'', PBool True), (''default'', PStr [])])])
     [] Map.empty
     = Inl (ConfigurationException ''Missing required variable token'')"
proof -
  have a: "read_declared [(''region'', PDict [(''default'', PStr ''us-east'')])] [] Map.empty []
             = Inr [(''region'', PStr ''us-east'')]"
    by (simp add: resolve_variable_def calculate_variable_value_def)
  have v1: "calculate_variable_value ''token'' (PDict [(''required'', PBool True)]) [] Map.empty
             = Inr PNone"
    by (simp add: calculate_variable_value_def)
  have v2: "calculate_variable_value ''token''
              (PDict [(''required'', PBool True), (''default'', PStr [])]) [] Map.empty
             = Inr (PStr [])"
    by (simp add: calculate_variable_value_def)
  from required_variable_missing [of "[(''required'', PBool True)]" "PBool True" "''token''"
        "[]" Map.empty PNone "[(''region'', PDict [(''default'', PStr ''us-east'')])]"
        "[(''other'', PDict [])]", OF _ _ v1]
    required_variable_missing [of "[(''required'', PBool True), (''default'', PStr [])]"
        "PBool True" "''token''" "[]" Map.empty "PStr []" "[]" "[]", OF _ _ v2]
  show ?thesis using a by simp
qed

text \<open>
  The allow-list check on a list of strings, once the required check has passed: a
  member passes, anything else is refused with a ConfigurationException that quotes the
  value and lists the allowed strings.
\<close>

lemma values_check_strings:
  assumes "map_of c ''values'' = Some (PList allowed)"
    and "strings_of allowed = Inr names"
    and "calculate_variable_value name (PDict c) pv env = Inr v"
    and "truthy v \<or> \<not> truthy (case map_of c ''required'' of None \<Rightarrow> PBool False | Some r \<Rightarrow> r)"
  shows "resolve_variable name (PDict c) pv env =
     (if list_ex (\<lambda>x. py_eq x v) allowed then Inr v
      else Inl (ConfigurationException
             (''Value '' @ [CHR 0x27] @ py_str v @ [CHR 0x27] @ '' not allowed for '' @ name
              @ ''. Possible values: '' @ join '','' names)))"
  using assms
  by (auto simp: resolve_variable_def py_join_def)

text \<open>
  C8 asks for a ConfigurationException whenever the resolved value is not in the
  allow-list. The source builds the message with \<^verbatim>\<open>','.join(config["values"])\<close>,
  which raises TypeError when the allow-list holds a value that is not a string: with the
  allow-list \<^verbatim>\<open>[1, 3, 5]\<close> and the provided value \<^verbatim>\<open>"3"\<close> the value is refused and
  resolution ends in a TypeError instead.
\<close>

theorem values_check_type_error:
  "resolve_variable ''replicas''
      (PDict [(''default'', PInt 1), (''values'', PList [PInt 1, PInt 3, PInt 5])])
      [(''replicas'', PStr ''3'')] Map.empty = Inl TypeError
   \<and> read_variables
      (PDict [(''replicas'',
               PDict [(''default'', PInt 1), (''values'', PList [PInt 1, PInt 3, PInt 5])])])
      [(''replicas'', PStr ''3'')] Map.empty = Inl TypeError"
  by (simp add: read_variables_def resolve_variable_def calculate_variable_value_def
      py_join_def)

subsection \<open>Condition evaluator\<close>

lemma only_fails_iff:
  "only_fails variables entries =
     (\<exists>(var, expected) \<in> set entries.
        \<not> container_has variables var \<or> \<not> py_eq (container_get variables var) expected)"
  by (induction variables entries rule: only_fails.induct) auto

lemma except_hits_iff:
  "except_hits variables entries =
     (\<exists>(var, excluded) \<in> set entries.
        container_has variables var \<and> py_eq (container_get variables var) excluded)"
  by (induction variables entries rule: except_hits.induct) auto

text \<open>
  C5: the condition evaluator answers skip exactly when some entry of the \<open>only\<close> map
  names a variable that the container does not have or whose value differs from the
  expected one, or some entry of the \<open>except\<close> map names a variable that the container
  has with a value equal to the excluded one; with both maps empty it answers no skip.
\<close>

theorem check_conditions_apply_iff:
  "check_conditions_apply variables (PDict only) (PDict except) =
     Inr ((\<exists>(var, expected) \<in> set only.
             \<not> container_has variables var \<or> \<not> py_eq (container_get variables var) expected)
          \<or> (\<exists>(var, excluded) \<in> set except.
             container_has variables var \<and> py_eq (container_get variables var) excluded))
   \<and> check_conditions_apply variables (PDict []) (PDict []) = Inr False"
proof -
  have "check_conditions_apply variables (PDict only) (PDict except) =
          Inr (only_fails variables only \<or> except_hits variables except)"
    by (cases only; cases except) (auto simp: check_conditions_apply_def)
  then show ?thesis
    by (simp add: only_fails_iff except_hits_iff check_conditions_apply_def)
qed

theorem check_conditions_apply_iff_witness:
  "check_conditions_apply [(''env'', PStr ''dev'')] (PDict [(''env'', PStr ''prod'')]) (PDict [])
     = Inr True
   \<and> check_conditions_apply [] (PDict [(''env'', PStr ''prod'')]) (PDict []) = Inr True
   \<and> check_conditions_apply [(''env'', PStr ''prod'')] (PDict [(''env'', PStr ''prod'')]) (PDict [])
     = Inr False
   \<and> check_conditions_apply [(''env'', PStr ''dev'')] (PDict []) (PDict [(''env'', PStr ''dev'')])
     = Inr True
   \<and> check_conditions_apply [] (PDict []) (PDict [(''env'', PStr ''dev'')]) = Inr False"
  using check_conditions_apply_iff [of "[(''env'', PStr ''dev'')]" "[(''env'', PStr ''prod'')]" "[]"]
    check_conditions_apply_iff [of "[]" "[(''env'', PStr ''prod'')]" "[]"]
    check_conditions_apply_iff [of "[(''env'', PStr ''prod'')]" "[(''env'', PStr ''prod'')]" "[]"]
    check_conditions_apply_iff [of "[(''env'', PStr ''dev'')]" "[]" "[(''env'', PStr ''dev'')]"]
    check_conditions_apply_iff [of "[]" "[]" "[(''env'', PStr ''dev'')]"]
  by (simp add: container_has_def container_get_def)

subsection \<open>Template renderer\<close>

lemma count_from_pos:
  "sub \<noteq> [] \<Longrightarrow> (0 < count_from sub s) = sublist sub s"
proof (induction s)
  case Nil
  then show ?case by simp
next
  case (Cons c cs)
  show ?case
  proof (cases "prefix sub (c # cs)")
    case True
    then show ?thesis by (simp add: sublist_Cons_right)
  next
    case False
    then show ?thesis using Cons by (simp add: sublist_Cons_right)
  qed
qed

lemma str_count_pos:
  "sub \<noteq> [] \<Longrightarrow> (0 < str_count s sub) = sublist sub s"
  by (simp add: str_count_def count_from_pos)

text \<open>
  The check of \<^verbatim>\<open>render\<close> is a post-condition on the library's output, whatever the
  library is: the call fails, with the ConfigurationException \<open>Unresolved variable\<close>,
  exactly when that output contains \<^verbatim>\<open>{{\<close>.
\<close>

lemma render_postcondition:
  "render P variables text extra_vars =
     (let out = P text (if extra_vars \<noteq> [] then dict_merge variables extra_vars else variables)
      in if sublist ''{{'' out then Inl (ConfigurationException ''Unresolved variable'')
         else Inr out)"
  using str_count_pos [of "''{{''"]
  by (simp add: render_def Let_def)

lemma render_hello_world:
  "render mustache_render [(''name'', PStr ''World'')] ''Hello {{name}}'' [] = Inr ''Hello World''"
  by (simp add: render_def mustache_render_def str_count_def strip_spaces_def is_space_def html_escape_def
      py_str_def)

lemma render_nested_placeholder:
  "render mustache_render [(''a'', PStr ''{{b}}'')] ''x {{ a }} y'' []
     = Inl (ConfigurationException ''Unresolved variable'')"
  by (simp add: render_def mustache_render_def str_count_def strip_spaces_def is_space_def html_escape_def
      py_str_def)

text \<open>
  White space around the name of a tag is dropped, a tab as well as a space; a tag
  without a name is no tag, it stays in the output and the check refuses it.
\<close>

lemma render_tab_in_tag:
  "render mustache_render [(''name'', PStr ''World'')]
     (''Hello {{'' @ [CHR 0x09] @ ''name }}'') [] = Inr ''Hello World''"
  by (simp add: render_def mustache_render_def str_count_def strip_spaces_def is_space_def
      html_escape_def py_str_def)

lemma render_empty_tag:
  "render mustache_render [] ''a{{}}b'' [] = Inl (ConfigurationException ''Unresolved variable'')"
  by (simp add: render_def mustache_render_def str_count_def)

text \<open>
  C3 asks that rendering \<^verbatim>\<open>Hello {{missing}}\<close> against an empty variable set fails.
  The library replaces a tag whose name is missing by the empty string, so its output
  \<^verbatim>\<open>Hello \<close> holds no \<^verbatim>\<open>{{\<close> and the check of the source lets it through: the call
  returns \<^verbatim>\<open>Hello \<close> and raises nothing.
\<close>

theorem render_missing_variable:
  "render mustache_render [] ''Hello {{missing}}'' [] = Inr ''Hello ''"
  by (simp add: render_def mustache_render_def str_count_def strip_spaces_def is_space_def)

subsection \<open>Dependency graph builder\<close>

lemma sublist_single: "sublist [c] s = (c \<in> set s)"
  by (auto simp: sublist_def in_set_conv_decomp)

lemma count_colon: "(0 < str_count d '':'') = (CHR '':'' \<in> set d)"
  using str_count_pos [of "'':''" d] by (simp add: sublist_single)

lemma takeWhile_until:
  "sep \<notin> set xs \<Longrightarrow> takeWhile (\<lambda>c. c \<noteq> sep) (xs @ sep # ys) = xs"
  by (induction xs) auto

lemma dropWhile_until:
  "sep \<notin> set xs \<Longrightarrow> dropWhile (\<lambda>c. c \<noteq> sep) (xs @ sep # ys) = sep # ys"
  by (induction xs) auto

lemma rsplit1_last:
  "sep \<notin> set k \<Longrightarrow> rsplit1 sep (a @ sep # k) = (a, k)"
  using takeWhile_until [of sep "rev k" "rev a"] dropWhile_until [of sep "rev k" "rev a"]
  by (simp add: rsplit1_def)

lemma split_dependency_kind:
  "CHR '':'' \<notin> set k \<Longrightarrow> split_dependency (target @ '':'' @ k) = (target, k)"
  by (simp add: split_dependency_def count_colon rsplit1_last)

lemma split_dependency_default:
  "CHR '':'' \<notin> set d \<Longrightarrow> split_dependency d = (d, ''create'')"
  by (simp add: split_dependency_def count_colon)

lemma resolve_dependencies_missing:
  assumes "PStr d \<in> set deps"
    and "map_of objs (fst (split_dependency d)) = None"
  shows "\<exists>e. resolve_dependencies t objs deps = Inl e"
  using assms
proof (induction t objs deps rule: resolve_dependencies.induct)
  case (2 t objs x rest)
  then show ?case
    by (cases "split_dependency x"; cases "resolve_dependencies t objs rest")
       (auto split: option.splits)
qed auto

lemma build_entries_missing:
  assumes "(name, PList deps) \<in> set dependencies_map"
    and "PStr d \<in> set deps"
    and "map_of objs (fst (split_dependency d)) = None"
  shows "\<exists>e. build_entries t objs dependencies_map acc = Inl e"
  using assms
proof (induction dependencies_map arbitrary: acc)
  case Nil
  then show ?case by simp
next
  case (Cons p ps)
  obtain n v where p: "p = (n, v)" by (cases p)
  show ?case
  proof (cases "(name, PList deps) = p")
    case True
    with resolve_dependencies_missing [OF Cons.prems(2,3), of t]
    show ?thesis using p by auto
  next
    case False
    with Cons.prems have "(name, PList deps) \<in> set ps" by simp
    from Cons.IH [OF this Cons.prems(2,3)]
    show ?thesis
      by (cases "py_iter v"; cases "resolve_dependencies t objs (projr (py_iter v))")
         (auto simp: p)
  qed
qed


lemma resolve_dependencies_single:
  assumes "map_of objs (fst (split_dependency d)) = Some obj" and "t obj"
  shows "resolve_dependencies t objs [PStr d] =
           Inr [(fst (split_dependency d), obj, snd (split_dependency d))]"
  using assms by (cases "split_dependency d") simp

lemma resolve_dependencies_strings:
  "resolve_dependencies t objs (map PStr ds) =
     (case find (\<lambda>d. \<not> dependency_found t objs d) ds of
        None \<Rightarrow> Inr (List.map_filter (resolved_dependency objs) ds)
      | Some d \<Rightarrow> Inl (Exception (''Could not find '' @ fst (split_dependency d))))"
proof (induction ds)
  case Nil
  show ?case by simp
next
  case (Cons d ds)
  obtain target kind where sp: "split_dependency d = (target, kind)"
    by (cases "split_dependency d")
  show ?case
  proof (cases "dependency_found t objs d")
    case False
    then show ?thesis
      by (auto simp: sp dependency_found_def split: option.splits)
  next
    case True
    then obtain obj where "map_of objs target = Some obj" "t obj"
      by (auto simp: sp dependency_found_def split: option.splits)
    then have "resolved_dependency objs d = Some (target, obj, kind)"
      by (simp add: sp resolved_dependency_def)
    with True Cons.IH \<open>map_of objs target = Some obj\<close> \<open>t obj\<close> show ?thesis
      by (simp add: sp map_filter_simps split: option.splits)
  qed
qed

lemma build_entries_strings:
  assumes "distinct (map fst entries)" and "fst ` set entries \<inter> fst ` set acc = {}"
  shows "build_entries t objs (map (\<lambda>(name, ds). (name, PList (map PStr ds))) entries) acc =
     (case find (\<lambda>d. \<not> dependency_found t objs d) (concat (map snd entries)) of
        None \<Rightarrow> Inr (acc @ map (\<lambda>(name, ds). (name, List.map_filter (resolved_dependency objs) ds)) entries)
      | Some d \<Rightarrow> Inl (Exception (''Could not find '' @ fst (split_dependency d))))"
  using assms
proof (induction entries arbitrary: acc)
  case Nil
  show ?case by simp
next
  case (Cons p entries)
  obtain name ds where p: "p = (name, ds)" by (cases p)
  from Cons.prems p have new: "name \<notin> fst ` set acc" by auto
  show ?case
  proof (cases "find (\<lambda>d. \<not> dependency_found t objs d) ds")
    case (Some d)
    then show ?thesis
      by (simp add: p resolve_dependencies_strings find_append_first)
  next
    case None
    let ?acc' = "acc @ [(name, List.map_filter (resolved_dependency objs) ds)]"
    have upd: "AList.update name (List.map_filter (resolved_dependency objs) ds) acc = ?acc'"
      using new by (rule update_new_key)
    have "build_entries t objs (map (\<lambda>(name, ds). (name, PList (map PStr ds))) entries) ?acc' =
     (case find (\<lambda>d. \<not> dependency_found t objs d) (concat (map snd entries)) of
        None \<Rightarrow> Inr (?acc' @ map (\<lambda>(name, ds). (name, List.map_filter (resolved_dependency objs) ds)) entries)
      | Some d \<Rightarrow> Inl (Exception (''Could not find '' @ fst (split_dependency d))))"
      using Cons.prems p by (intro Cons.IH) auto
    with None show ?thesis
      by (simp add: p resolve_dependencies_strings find_append_first upd split: option.split)
  qed
qed

lemma build_dependency_tree_strings:
  assumes "distinct (map fst entries)"
  shows "build_dependency_tree t (map (\<lambda>(name, ds). (name, PList (map PStr ds))) entries) objs =
     (case find (\<lambda>d. \<not> dependency_found t objs d) (concat (map snd entries)) of
        None \<Rightarrow> Inr (map (\<lambda>(name, ds). (name, List.map_filter (resolved_dependency objs) ds)) entries)
      | Some d \<Rightarrow> Inl (Exception (''Could not find '' @ fst (split_dependency d))))"
  using build_entries_strings [OF assms, of "[]" t objs]
  by (simp add: build_dependency_tree_def split: option.split)


lemma read_config_graph:
  assumes "read_yaml w (abspath w filename) = Inr (PDict root)"
    and "read_variables (case map_of root ''variables'' of None \<Rightarrow> PDict [] | Some v \<Rightarrow> v)
           pv (os_environ w) = Inr variables"
    and "py_iter (case map_of root ''includes'' of None \<Rightarrow> PList [] | Some v \<Rightarrow> v) = Inr incs"
    and "merge_includes w (dirname w (abspath w filename)) incs root = Inr config"
    and "init_modules (import_module w)
           (case map_of config ''modules'' of None \<Rightarrow> PList [] | Some v \<Rightarrow> v)
         = Inr (managers, modules)"
    and "read_sections modules variables
           \<lparr>variables_container = variables, base_path = dirname w (abspath w filename)\<rparr>
           config ([], []) = Inr (objs, dependencies_map)"
  shows "read_config w filename pv =
           on_success (build_dependency_tree (obj_truthy w) dependencies_map objs)
             (\<lambda>graph. Inr (objs, graph, managers))"
  using assms
  by (simp add: read_config_def Let_def read_config_entities_def)
     (cases "build_dependency_tree (obj_truthy w) dependencies_map objs"; simp)

lemma absent_not_found:
  "map_of objs (fst (split_dependency d)) = None \<Longrightarrow> \<not> dependency_found t objs d"
  by (simp add: dependency_found_def)

text \<open>
  C6: a dependency string is split at its last colon into the target name and the
  relation kind, and a string without a colon has the kind \<open>create\<close>. On a list of
  dependency strings the resolver returns, in order, the triple of target name,
  deployment object and kind of every string, unless some string is not found; then it
  raises \<^verbatim>\<open>Exception\<close> with the message \<open>Could not find\<close> and the target name of
  the first such string. The graph builder does the same over the dependency lists of
  all entities, in the order of the entities (their names are the keys of a dict, hence
  distinct): it returns one entry per entity, holding its resolved list, or raises for the
  first dependency that is not found. A target that is not among the deployment objects
  is not found, so the builder fails, and with it the entity pipeline. Last, the load
  itself: when the root document is read, the variables are resolved, the includes are
  merged, the modules are loaded and the entity sections give the deployment objects and
  the dependency lists, \<^verbatim>\<open>read_config\<close> returns the objects, that graph and the
  managers, or fails with that exception: no graph is returned.
\<close>

theorem dependency_resolution:
  "(CHR '':'' \<notin> set k \<longrightarrow> split_dependency (target @ '':'' @ k) = (target, k))
   \<and> (CHR '':'' \<notin> set d \<longrightarrow> split_dependency d = (d, ''create''))
   \<and> resolve_dependencies t objs (map PStr ds) =
        (case find (\<lambda>d. \<not> dependency_found t objs d) ds of
           None \<Rightarrow> Inr (List.map_filter (resolved_dependency objs) ds)
         | Some d \<Rightarrow> Inl (Exception (''Could not find '' @ fst (split_dependency d))))
   \<and> (distinct (map fst entries) \<longrightarrow>
        build_dependency_tree t (map (\<lambda>(name, ds). (name, PList (map PStr ds))) entries) objs =
          (case find (\<lambda>d. \<not> dependency_found t objs d) (concat (map snd entries)) of
             None \<Rightarrow> Inr (map (\<lambda>(name, ds). (name, List.map_filter (resolved_dependency objs) ds)) entries)
           | Some d \<Rightarrow> Inl (Exception (''Could not find '' @ fst (split_dependency d)))))
   \<and> (map_of objs (fst (split_dependency d)) = None \<longrightarrow> \<not> dependency_found t objs d)
   \<and> ((name, PList deps) \<in> set dependencies_map \<and> PStr d \<in> set deps
        \<and> map_of objs (fst (split_dependency d)) = None \<longrightarrow>
        (\<exists>e. build_dependency_tree t dependencies_map objs = Inl e)
        \<and> (read_sections modules variables helper config ([], []) = Inr (objs, dependencies_map)
             \<longrightarrow> (\<exists>e. read_config_entities t modules variables config helper = Inl e)))
   \<and> (read_yaml w (abspath w filename) = Inr (PDict root)
        \<and> read_variables (case map_of root ''variables'' of None \<Rightarrow> PDict [] | Some v \<Rightarrow> v)
              pv (os_environ w) = Inr resolved
        \<and> py_iter (case map_of root ''includes'' of None \<Rightarrow> PList [] | Some v \<Rightarrow> v) = Inr incs
        \<and> merge_includes w (dirname w (abspath w filename)) incs root = Inr merged
        \<and> init_modules (import_module w)
              (case map_of merged ''modules'' of None \<Rightarrow> PList [] | Some v \<Rightarrow> v)
            = Inr (managers, loaded)
        \<and> read_sections loaded resolved
              \<lparr>variables_container = resolved, base_path = dirname w (abspath w filename)\<rparr>
              merged ([], [])
            = Inr (objs, map (\<lambda>(name, ds). (name, PList (map PStr ds))) entries)
        \<and> distinct (map fst entries) \<longrightarrow>
        read_config w filename pv =
          (case find (\<lambda>d. \<not> dependency_found (obj_truthy w) objs d) (concat (map snd entries)) of
             None \<Rightarrow> Inr (objs,
                           map (\<lambda>(name, ds). (name, List.map_filter (resolved_dependency objs) ds)) entries,
                           managers)
           | Some d \<Rightarrow> Inl (Exception (''Could not find '' @ fst (split_dependency d)))))"
proof -
  have missing: "\<exists>e. build_dependency_tree t dependencies_map objs = Inl e"
    if "(name, PList deps) \<in> set dependencies_map" "PStr d \<in> set deps"
       "map_of objs (fst (split_dependency d)) = None"
    using build_entries_missing [OF that] by (simp add: build_dependency_tree_def)
  have pipeline: "\<exists>e. read_config_entities t modules variables config helper = Inl e"
    if "(name, PList deps) \<in> set dependencies_map" "PStr d \<in> set deps"
       "map_of objs (fst (split_dependency d)) = None"
       "read_sections modules variables helper config ([], []) = Inr (objs, dependencies_map)"
    using missing [OF that(1,2,3)] that(4) by (auto simp: read_config_entities_def)
  have load: "read_config w filename pv =
          (case find (\<lambda>d. \<not> dependency_found (obj_truthy w) objs d) (concat (map snd entries)) of
             None \<Rightarrow> Inr (objs,
                           map (\<lambda>(name, ds). (name, List.map_filter (resolved_dependency objs) ds)) entries,
                           managers)
           | Some d \<Rightarrow> Inl (Exception (''Could not find '' @ fst (split_dependency d))))"
    if "read_yaml w (abspath w filename) = Inr (PDict root)"
      "read_variables (case map_of root ''variables'' of None \<Rightarrow> PDict [] | Some v \<Rightarrow> v)
              pv (os_environ w) = Inr resolved"
      "py_iter (case map_of root ''includes'' of None \<Rightarrow> PList [] | Some v \<Rightarrow> v) = Inr incs"
      "merge_includes w (dirname w (abspath w filename)) incs root = Inr merged"
      "init_modules (import_module w)
              (case map_of merged ''modules'' of None \<Rightarrow> PList [] | Some v \<Rightarrow> v)
            = Inr (managers, loaded)"
      "read_sections loaded resolved
              \<lparr>variables_container = resolved, base_path = dirname w (abspath w filename)\<rparr>
              merged ([], [])
            = Inr (objs, map (\<lambda>(name, ds). (name, PList (map PStr ds))) entries)"
      "distinct (map fst entries)"
    unfolding read_config_graph [OF that(1-6)] build_dependency_tree_strings [OF that(7)]
    by (simp split: option.split)
  show ?thesis
    using split_dependency_kind [of k target] split_dependency_default [of d]
      resolve_dependencies_strings [of t objs ds]
      build_dependency_tree_strings [of entries t objs] absent_not_found [of objs d t]
      missing pipeline load
    by blast
qed


theorem dependency_resolution_witness:
  "split_dependency ''db:create'' = (''db'', ''create'')
   \<and> split_dependency ''db'' = (''db'', ''create'')
   \<and> split_dependency ''host:8080:delete'' = (''host:8080'', ''delete'')
   \<and> resolve_dependencies (\<lambda>obj. True) [(''db'', 7::nat), (''mq'', 8)]
         [PStr ''db'', PStr ''mq:delete''] = Inr [(''db'', 7, ''create''), (''mq'', 8, ''delete'')]
   \<and> build_dependency_tree (\<lambda>obj. True)
         [(''web'', PList [PStr ''db'', PStr ''db:delete'']), (''cache'', PList [])]
         [(''db'', 7::nat), (''web'', 8), (''cache'', 9)]
       = Inr [(''web'', [(''db'', 7, ''create''), (''db'', 7, ''delete'')]), (''cache'', [])]
   \<and> build_dependency_tree (\<lambda>obj. True)
         [(''web'', PList [PStr ''db'', PStr ''cache:delete''])] [(''db'', 7::nat)]
       = Inl (Exception ''Could not find cache'')
   \<and> build_dependency_tree (\<lambda>obj. 0 < obj)
         [(''web'', PList [PStr ''db''])] [(''db'', 0::nat)]
       = Inl (Exception ''Could not find db'')
   \<and> (\<exists>e. read_config_entities (\<lambda>obj. True)
              [(''app'', \<lparr>parser = \<lambda>name entity_config helper. Inr (7::nat), preprocesser = None\<rparr>)]
              []
              [(''web'', PDict [(''type'', PStr ''app''), (''dependencies'', PList [PStr ''db''])])]
              \<lparr>variables_container = [], base_path = ''/etc''\<rparr> = Inl e)
   \<and> read_config (single_file_world
         (PDict [(''web'', PDict [(''type'', PStr ''apps''),
                                  (''dependencies'', PList [PStr ''db''])])]))
         ''/etc/root.yml'' [] = Inl (Exception ''Could not find db'')
   \<and> read_config (single_file_world
         (PDict [(''db'', PDict [(''type'', PStr ''apps'')]),
                 (''web'', PDict [(''type'', PStr ''apps''),
                                  (''dependencies'', PList [PStr ''db:delete''])])]))
         ''/etc/root.yml'' []
       = Inr ([(''db'', 7), (''web'', 7)], [(''web'', [(''db'', 7, ''delete'')])],
              map (\<lambda>name. (name, 0)) STANDARD_MODULES)"
proof -
  let ?modules = "[(''app'', \<lparr>parser = \<lambda>name entity_config helper. Inr (7::nat), preprocesser = None\<rparr>)]"
  let ?config = "[(''web'', PDict [(''type'', PStr ''app''), (''dependencies'', PList [PStr ''db''])])]"
  let ?helper = "\<lparr>variables_container = [], base_path = ''/etc''\<rparr>"
  let ?loaded = "map (\<lambda>name. (drop (length ''dcosdeploy.modules.'') name,
                    \<lparr>parser = \<lambda>name entity_config helper. Inr (7::nat), preprocesser = None\<rparr>))
                  STANDARD_MODULES"
  let ?managers = "map (\<lambda>name. (name, 0::nat)) STANDARD_MODULES"
  let ?dangling = "[(''web'', PDict [(''type'', PStr ''apps''),
                                     (''dependencies'', PList [PStr ''db''])])]"
  let ?linked = "[(''db'', PDict [(''type'', PStr ''apps'')]),
                  (''web'', PDict [(''type'', PStr ''apps''),
                                   (''dependencies'', PList [PStr ''db:delete''])])]"
  have sections: "read_sections ?modules [] ?helper ?config ([], [])
                    = Inr ([(''web'', 7)], [(''web'', PList [PStr ''db''])])"
    by (simp add: lookup_module_def check_conditions_apply_def)
  have variables: "read_variables (PDict []) [] Map.empty = Inr []"
    by (simp add: read_variables_def)
  have modules: "init_modules (import_module (single_file_world document)) (PList [])
                   = Inr (?managers, ?loaded)" for document
    by (simp add: init_modules_def single_file_world_def register_module_def
        STANDARD_MODULES_def)
  have dangling: "read_sections ?loaded [] ?helper ?dangling ([], [])
                    = Inr ([(''web'', 7)],
                           map (\<lambda>(name, ds). (name, PList (map PStr ds))) [(''web'', [''db''])])"
    by (simp add: lookup_module_def check_conditions_apply_def STANDARD_MODULES_def)
  have linked: "read_sections ?loaded [] ?helper ?linked ([], [])
                    = Inr ([(''db'', 7), (''web'', 7)],
                           map (\<lambda>(name, ds). (name, PList (map PStr ds)))
                             [(''web'', [''db:delete''])])"
    by (simp add: lookup_module_def check_conditions_apply_def STANDARD_MODULES_def)
  note kind = dependency_resolution [THEN conjunct1, rule_format]
  note default = dependency_resolution [THEN conjunct2, THEN conjunct1, rule_format]
  note resolver = dependency_resolution [THEN conjunct2, THEN conjunct2, THEN conjunct1]
  note builder = dependency_resolution [THEN conjunct2, THEN conjunct2, THEN conjunct2,
      THEN conjunct1, rule_format]
  note missing = dependency_resolution [THEN conjunct2, THEN conjunct2, THEN conjunct2,
      THEN conjunct2, THEN conjunct2, THEN conjunct1, rule_format]
  note load = dependency_resolution [THEN conjunct2, THEN conjunct2, THEN conjunct2,
      THEN conjunct2, THEN conjunct2, THEN conjunct2, rule_format]
  have a: "split_dependency ''db:create'' = (''db'', ''create'')"
    using kind [of "''create''" "''db''"] by simp
  have b: "split_dependency ''db'' = (''db'', ''create'')"
    using default [of "''db''"] by simp
  have c: "split_dependency ''host:8080:delete'' = (''host:8080'', ''delete'')"
    using kind [of "''delete''" "''host:8080''"] by simp
  have c': "split_dependency ''cache:delete'' = (''cache'', ''delete'')"
    using kind [of "''delete''" "''cache''"] by simp
  have c'': "split_dependency ''db:delete'' = (''db'', ''delete'')"
    using kind [of "''delete''" "''db''"] by simp
  have c3: "split_dependency ''mq:delete'' = (''mq'', ''delete'')"
    using kind [of "''delete''" "''mq''"] by simp
  have r: "resolve_dependencies (\<lambda>obj. True) [(''db'', 7::nat), (''mq'', 8)]
         [PStr ''db'', PStr ''mq:delete''] = Inr [(''db'', 7, ''create''), (''mq'', 8, ''delete'')]"
    using resolver [of "\<lambda>obj. True" "[(''db'', 7::nat), (''mq'', 8)]" "[''db'', ''mq:delete'']"]
      b c3
    by (simp add: dependency_found_def resolved_dependency_def map_filter_simps)
  have d: "build_dependency_tree (\<lambda>obj. True)
         [(''web'', PList [PStr ''db'', PStr ''db:delete'']), (''cache'', PList [])]
         [(''db'', 7::nat), (''web'', 8), (''cache'', 9)]
       = Inr [(''web'', [(''db'', 7, ''create''), (''db'', 7, ''delete'')]), (''cache'', [])]"
    using builder [of "[(''web'', [''db'', ''db:delete'']), (''cache'', [])]" "\<lambda>obj. True"
        "[(''db'', 7::nat), (''web'', 8), (''cache'', 9)]"] b c''
    by (simp add: dependency_found_def resolved_dependency_def map_filter_simps)
  have e: "build_dependency_tree (\<lambda>obj. True)
         [(''web'', PList [PStr ''db'', PStr ''cache:delete''])] [(''db'', 7::nat)]
       = Inl (Exception ''Could not find cache'')"
    using builder [of "[(''web'', [''db'', ''cache:delete''])]" "\<lambda>obj. True"
        "[(''db'', 7::nat)]"] b c'
    by (simp add: dependency_found_def resolved_dependency_def map_filter_simps)
  have f: "build_dependency_tree (\<lambda>obj. 0 < obj)
         [(''web'', PList [PStr ''db''])] [(''db'', 0::nat)]
       = Inl (Exception ''Could not find db'')"
    using builder [of "[(''web'', [''db''])]" "\<lambda>obj. 0 < obj" "[(''db'', 0::nat)]"] b
    by (simp add: dependency_found_def resolved_dependency_def map_filter_simps)
  have g: "\<exists>e. read_config_entities (\<lambda>obj. True) ?modules [] ?config ?helper = Inl e"
    using missing [THEN conjunct2, rule_format, of "''web''" "[PStr ''db'']"
        "[(''web'', PList [PStr ''db''])]" "''db''" "[(''web'', 7::nat)]"
        ?modules "[]" ?helper ?config "\<lambda>obj. True"] sections b
    by simp
  have h: "read_config (single_file_world (PDict ?dangling)) ''/etc/root.yml'' []
             = Inl (Exception ''Could not find db'')"
    using load [where w = "single_file_world (PDict ?dangling)" and filename = "''/etc/root.yml''"
        and root = ?dangling and pv = "[]" and resolved = "[]" and incs = "[]"
        and merged = ?dangling and managers = ?managers and loaded = ?loaded
        and objs = "[(''web'', 7)]" and entries = "[(''web'', [''db''])]"]
      variables modules [of "PDict ?dangling"] dangling b
    by (simp add: single_file_world_def dependency_found_def resolved_dependency_def
        map_filter_simps)
  have i: "read_config (single_file_world (PDict ?linked)) ''/etc/root.yml'' []
             = Inr ([(''db'', 7), (''web'', 7)], [(''web'', [(''db'', 7, ''delete'')])], ?managers)"
    using load [where w = "single_file_world (PDict ?linked)" and filename = "''/etc/root.yml''"
        and root = ?linked and pv = "[]" and resolved = "[]" and incs = "[]"
        and merged = ?linked and managers = ?managers and loaded = ?loaded
        and objs = "[(''db'', 7), (''web'', 7)]" and entries = "[(''web'', [''db:delete''])]"]
      variables modules [of "PDict ?linked"] linked c''
    by (simp add: single_file_world_def dependency_found_def resolved_dependency_def
        map_filter_simps)
  from a b c r d e f g h i show ?thesis by blast
qed

subsection \<open>Include merge\<close>

text \<open>
  Merging the items of one included document: the first item whose key the accumulated
  configuration already has stops the merge with a ConfigurationException built from the
  key and the include path; when there is none, the items are appended in their order.
\<close>

lemma merge_items_collision:
  assumes "fst ` set before \<inter> fst ` set config = {}"
    and "distinct (map fst before)"
    and "key \<in> fst ` set config \<or> key \<in> fst ` set before"
  shows "merge_items include (before @ (key, v) # rest) config =
           Inl (ConfigurationException
                 (key @ '' found in base config and include file '' @ include))"
  using assms
proof (induction before arbitrary: config)
  case Nil
  then show ?case by auto
next
  case (Cons p before)
  obtain k x where p: "p = (k, x)" by (cases p)
  from Cons.prems p have new: "k \<notin> fst ` set config" by auto
  have keys: "fst ` set (AList.update k x config) = insert k (fst ` set config)"
    by (simp add: dom_update)
  have "merge_items include (before @ (key, v) # rest) (AList.update k x config) =
           Inl (ConfigurationException
                 (key @ '' found in base config and include file '' @ include))"
  proof (rule Cons.IH)
    show "fst ` set before \<inter> fst ` set (AList.update k x config) = {}"
      using Cons.prems p by (auto simp: keys)
    show "distinct (map fst before)" using Cons.prems by simp
    show "key \<in> fst ` set (AList.update k x config) \<or> key \<in> fst ` set before"
      using Cons.prems p by (auto simp: keys)
  qed
  then show ?case using new p by (simp add: image_iff)
qed

lemma merge_items_success:
  "merge_items include entries config = Inr config' \<Longrightarrow>
     config' = config @ entries \<and> distinct (map fst entries)
     \<and> fst ` set entries \<inter> fst ` set config = {}"
proof (induction entries arbitrary: config)
  case Nil
  then show ?case by simp
next
  case (Cons p entries)
  obtain k x where p: "p = (k, x)" by (cases p)
  from Cons.prems p have new: "k \<notin> fst ` set config"
    by (auto split: if_splits simp: image_iff)
  with Cons.prems p have "merge_items include entries (config @ [(k, x)]) = Inr config'"
    by (simp add: update_new_key image_iff)
  from Cons.IH [OF this] show ?case using new p by auto
qed

lemma merge_items_disjoint:
  assumes "distinct (map fst entries)" and "fst ` set entries \<inter> fst ` set config = {}"
  shows "merge_items include entries config = Inr (config @ entries)"
  using assms
proof (induction entries arbitrary: config)
  case Nil
  then show ?case by simp
next
  case (Cons p entries)
  obtain k x where p: "p = (k, x)" by (cases p)
  from Cons.prems p have new: "k \<notin> fst ` set config" by auto
  have "merge_items include entries (config @ [(k, x)]) = Inr ((config @ [(k, x)]) @ entries)"
    using Cons.prems p by (intro Cons.IH) auto
  then show ?case using new p by (simp add: update_new_key image_iff)
qed

lemma merge_items_error:
  "merge_items include entries config = Inl e \<Longrightarrow>
     \<exists>key \<in> fst ` set entries.
       e = ConfigurationException (key @ '' found in base config and include file '' @ include)"
proof (induction entries arbitrary: config)
  case Nil
  then show ?case by simp
next
  case (Cons p entries)
  obtain k x where p: "p = (k, x)" by (cases p)
  show ?case
  proof (cases "k \<in> set (map fst config)")
    case True
    with Cons.prems p show ?thesis by auto
  next
    case False
    with Cons.prems p have "merge_items include entries (AList.update k x config) = Inl e"
      by simp
    from Cons.IH [OF this] show ?thesis by auto
  qed
qed

lemma merge_includes_append:
  "merge_includes w base (pre @ rest) config =
     on_success (merge_includes w base pre config) (\<lambda>config'. merge_includes w base rest config')"
proof (induction w base pre config rule: merge_includes.induct)
  case (2 w base inc rest' config)
  show ?case
    by (cases "read_yaml w (abspath w (path_join w base inc))")
       (auto simp: on_success_def 2 split: sum.splits)
qed simp_all


lemma merge_includes_success:
  "merge_includes w base incs config = Inr config' \<Longrightarrow>
     \<exists>docs. list_all2 (\<lambda>inc doc. \<exists>path. inc = PStr path \<and>
                  read_yaml w (abspath w (path_join w base path)) = Inr (PDict doc)) incs docs
            \<and> config' = config @ concat docs"
proof (induction w base incs config rule: merge_includes.induct)
  case (1 w base config)
  then show ?case by simp
next
  case (2 w base inc rest config)
  from "2.prems" obtain additional where
    read: "read_yaml w (abspath w (path_join w base inc)) = Inr additional"
    by (auto simp: on_success_Inr_iff)
  with "2.prems" obtain entries where
    items: "py_items additional = Inr entries"
    by (auto simp: on_success_Inr_iff)
  then have doc: "additional = PDict entries"
    by (auto simp: py_items_def split: pyval.splits)
  from "2.prems" read items obtain merged where
    merged: "merge_items inc entries config = Inr merged"
    and rest: "merge_includes w base rest merged = Inr config'"
    by (auto simp: on_success_Inr_iff)
  from "2.IH" [OF rest] obtain docs where
    docs: "list_all2 (\<lambda>inc doc. \<exists>path. inc = PStr path \<and>
                  read_yaml w (abspath w (path_join w base path)) = Inr (PDict doc)) rest docs"
    and config': "config' = merged @ concat docs"
    by blast
  from merge_items_success [OF merged] have "merged = config @ entries" by simp
  with docs config' read doc show ?case
    by (intro exI [of _ "entries # docs"]) simp
qed simp_all

lemma merge_includes_collision:
  assumes pre: "merge_includes w base pre config = Inr acc"
    and read: "read_yaml w (abspath w (path_join w base inc)) = Inr (PDict entries)"
    and dist: "distinct (map fst entries)"
    and clash: "fst ` set entries \<inter> fst ` set acc \<noteq> {}"
  shows "\<exists>key \<in> fst ` set entries \<inter> fst ` set acc.
           merge_includes w base (pre @ PStr inc # post) config =
             Inl (ConfigurationException
                   (key @ '' found in base config and include file '' @ inc))"
proof -
  from clash have "\<exists>p \<in> set entries. fst p \<in> fst ` set acc" by auto
  from split_list_first_prop [OF this] obtain before p rest where
    split: "entries = before @ p # rest" and hit: "fst p \<in> fst ` set acc"
    and first: "\<forall>q \<in> set before. fst q \<notin> fst ` set acc"
    by blast
  obtain key v where p: "p = (key, v)" by (cases p)
  have "merge_items inc (before @ (key, v) # rest) acc =
           Inl (ConfigurationException
                 (key @ '' found in base config and include file '' @ inc))"
  proof (rule merge_items_collision)
    show "fst ` set before \<inter> fst ` set acc = {}" using first by auto
    show "distinct (map fst before)" using dist split by simp
    show "key \<in> fst ` set acc \<or> key \<in> fst ` set before" using hit p by simp
  qed
  then have "merge_includes w base (pre @ PStr inc # post) config =
             Inl (ConfigurationException
                   (key @ '' found in base config and include file '' @ inc))"
    using pre read split p by (simp add: merge_includes_append)
  moreover have "key \<in> fst ` set entries \<inter> fst ` set acc"
    using split p hit by auto
  ultimately show ?thesis by blast
qed

text \<open>A failure while the includes are merged is the failure of the load.\<close>

lemma read_config_merge_failure:
  assumes "read_yaml w (abspath w filename) = Inr (PDict root)"
    and "read_variables (case map_of root ''variables'' of None \<Rightarrow> PDict [] | Some v \<Rightarrow> v)
           provided_variables (os_environ w) = Inr variables"
    and "py_iter (case map_of root ''includes'' of None \<Rightarrow> PList [] | Some v \<Rightarrow> v) = Inr incs"
    and "merge_includes w (dirname w (abspath w filename)) incs root = Inl e"
  shows "read_config w filename provided_variables = Inl e"
  using assms by (simp add: read_config_def Let_def)

text \<open>
  C7: the included documents are appended to the configuration, top-level item by
  top-level item, in the order of the include list; an included document with a key that
  the accumulated configuration already has makes the merge, and so the load, fail with
  a ConfigurationException whose message holds that key and the include path.
\<close>

theorem include_merge:
  "(merge_includes w base incs config = Inr config' \<longrightarrow>
      (\<exists>docs. list_all2 (\<lambda>inc doc. \<exists>path. inc = PStr path \<and>
                  read_yaml w (abspath w (path_join w base path)) = Inr (PDict doc)) incs docs
             \<and> config' = config @ concat docs))
   \<and> (merge_includes w base pre config = Inr acc
        \<and> read_yaml w (abspath w (path_join w base inc)) = Inr (PDict entries)
        \<and> distinct (map fst entries)
        \<and> fst ` set entries \<inter> fst ` set acc \<noteq> {} \<longrightarrow>
      (\<exists>key \<in> fst ` set entries \<inter> fst ` set acc.
         merge_includes w base (pre @ PStr inc # post) config =
           Inl (ConfigurationException
                 (key @ '' found in base config and include file '' @ inc))))
   \<and> (read_yaml w (abspath w filename) = Inr (PDict root)
        \<and> read_variables (case map_of root ''variables'' of None \<Rightarrow> PDict [] | Some v \<Rightarrow> v)
             provided_variables (os_environ w) = Inr variables
        \<and> map_of root ''includes'' = Some (PList (pre @ PStr inc # post))
        \<and> merge_includes w (dirname w (abspath w filename)) pre root = Inr acc
        \<and> read_yaml w (abspath w (path_join w (dirname w (abspath w filename)) inc))
             = Inr (PDict entries)
        \<and> distinct (map fst entries)
        \<and> fst ` set entries \<inter> fst ` set acc \<noteq> {} \<longrightarrow>
      (\<exists>key \<in> fst ` set entries \<inter> fst ` set acc.
         read_config w filename provided_variables =
           Inl (ConfigurationException
                 (key @ '' found in base config and include file '' @ inc))))"
proof (intro conjI impI)
  assume "merge_includes w base incs config = Inr config'"
  then show "\<exists>docs. list_all2 (\<lambda>inc doc. \<exists>path. inc = PStr path \<and>
                  read_yaml w (abspath w (path_join w base path)) = Inr (PDict doc)) incs docs
             \<and> config' = config @ concat docs"
    by (rule merge_includes_success)
next
  assume "merge_includes w base pre config = Inr acc
        \<and> read_yaml w (abspath w (path_join w base inc)) = Inr (PDict entries)
        \<and> distinct (map fst entries)
        \<and> fst ` set entries \<inter> fst ` set acc \<noteq> {}"
  then show "\<exists>key \<in> fst ` set entries \<inter> fst ` set acc.
         merge_includes w base (pre @ PStr inc # post) config =
           Inl (ConfigurationException
                 (key @ '' found in base config and include file '' @ inc))"
    using merge_includes_collision by blast
next
  assume a: "read_yaml w (abspath w filename) = Inr (PDict root)
        \<and> read_variables (case map_of root ''variables'' of None \<Rightarrow> PDict [] | Some v \<Rightarrow> v)
             provided_variables (os_environ w) = Inr variables
        \<and> map_of root ''includes'' = Some (PList (pre @ PStr inc # post))
        \<and> merge_includes w (dirname w (abspath w filename)) pre root = Inr acc
        \<and> read_yaml w (abspath w (path_join w (dirname w (abspath w filename)) inc))
             = Inr (PDict entries)
        \<and> distinct (map fst entries)
        \<and> fst ` set entries \<inter> fst ` set acc \<noteq> {}"
  then obtain key where key: "key \<in> fst ` set entries \<inter> fst ` set acc"
    and fails: "merge_includes w (dirname w (abspath w filename)) (pre @ PStr inc # post) root =
           Inl (ConfigurationException
                 (key @ '' found in base config and include file '' @ inc))"
    using merge_includes_collision [of w "dirname w (abspath w filename)" pre root acc inc entries post]
    by blast
  have "read_config w filename provided_variables =
           Inl (ConfigurationException
                 (key @ '' found in base config and include file '' @ inc))"
    using a fails by (intro read_config_merge_failure [where root = root and variables = variables]) simp_all
  with key show "\<exists>key \<in> fst ` set entries \<inter> fst ` set acc.
         read_config w filename provided_variables =
           Inl (ConfigurationException
                 (key @ '' found in base config and include file '' @ inc))"
    by blast
qed


theorem include_merge_witness:
  "read_config two_jobs_world ''/etc/root.yml'' [] =
     Inl (ConfigurationException ''jobs found in base config and include file extra.yml'')
   \<and> merge_includes two_jobs_world ''/etc'' [PStr ''extra.yml''] [(''apps'', PDict [])] =
     Inr ([(''apps'', PDict [])] @ concat [[(''jobs'', PDict [])]])"
proof -
  let ?root = "[(''includes'', PList [PStr ''extra.yml'']), (''jobs'', PDict [])]"
  have "\<exists>key \<in> fst ` set [(''jobs'', PDict [])] \<inter> fst ` set ?root.
         read_config two_jobs_world ''/etc/root.yml'' [] =
           Inl (ConfigurationException
                 (key @ '' found in base config and include file '' @ ''extra.yml''))"
    by (rule include_merge [THEN conjunct2, THEN conjunct2, rule_format,
          where root = ?root and variables = "[]" and pre = "[]" and post = "[]"])
       (simp add: two_jobs_world_def read_variables_def)
  then have load: "read_config two_jobs_world ''/etc/root.yml'' [] =
     Inl (ConfigurationException ''jobs found in base config and include file extra.yml'')"
    by simp
  have "merge_includes two_jobs_world ''/etc'' [PStr ''extra.yml''] [(''apps'', PDict [])] =
          Inr [(''apps'', PDict []), (''jobs'', PDict [])]"
    by (simp add: two_jobs_world_def)
  from include_merge [THEN conjunct1, rule_format, OF this] this
  have "merge_includes two_jobs_world ''/etc'' [PStr ''extra.yml''] [(''apps'', PDict [])] =
     Inr ([(''apps'', PDict [])] @ concat [[(''jobs'', PDict [])]])"
    by simp
  with load show ?thesis by blast
qed

subsection \<open>Dependency graph\<close>







lemma map_of_append_lookup:
  "map_of (xs @ ys) k = (case map_of xs k of None \<Rightarrow> map_of ys k | Some v \<Rightarrow> Some v)"
  by (simp add: map_add_def split: option.split)












subsection \<open>Kinds of failure\<close>

text \<open>
  C2, as stated: every failure that the configuration causes is a ConfigurationException.
  It is not so for an entity whose \<open>type\<close> no module declares, where the lookup
  \<^verbatim>\<open>modules[entity_config["type"]]\<close> raises KeyError, nor for a module that cannot
  be imported, where the exception of the import reaches the caller: ModuleNotFoundError
  for a module that does not exist, ValueError for the empty name, TypeError for a
  relative name. Nothing in the loader turns any of them into a ConfigurationException.
\<close>

theorem other_exception_kinds:
  "read_config (single_file_world (PDict [(''web'', PDict [(''type'', PStr ''nosuch'')])]))
       ''/etc/root.yml'' [] = Inl (KeyError (PStr ''nosuch''))
   \<and> read_config (single_file_world (PDict [(''modules'', PList [PStr ''nosuch''])]))
       ''/etc/root.yml'' [] = Inl (ModuleNotFoundError ''nosuch'')
   \<and> read_config (single_file_world (PDict [(''modules'', PList [PStr []])]))
       ''/etc/root.yml'' [] = Inl ValueError
   \<and> read_config (single_file_world (PDict [(''modules'', PList [PStr ''.x''])]))
       ''/etc/root.yml'' [] = Inl TypeError"
  by (simp add: read_config_def read_variables_def init_modules_def single_file_world_def
      register_module_def STANDARD_MODULES_def read_config_entities_def lookup_module_def
      import_error_def)

text \<open>
  A dependency on a name that is not among the deployment objects raises the built-in
  \<^verbatim>\<open>Exception\<close>, the one \<^verbatim>\<open>raise\<close> of the loader that does not use
  ConfigurationException.
\<close>

lemma dangling_dependency_exception:
  "read_config (single_file_world
       (PDict [(''web'', PDict [(''type'', PStr ''apps''), (''dependencies'', PList [PStr ''db''])])]))
       ''/etc/root.yml'' [] = Inl (Exception ''Could not find db'')"
  by (simp add: read_config_def read_variables_def init_modules_def single_file_world_def
      register_module_def STANDARD_MODULES_def read_config_entities_def lookup_module_def
      check_conditions_apply_def build_dependency_tree_def split_dependency_def str_count_def)


lemma calculate_variable_value_total:
  assumes "from_is_text c"
  shows "\<exists>v. calculate_variable_value name (PDict c) pv env = Inr v"
proof (cases "map_of c ''from''")
  case None
  then show ?thesis
    by (auto simp: calculate_variable_value_def split: option.split)
next
  case (Some f)
  with assms have "f = PNone \<or> (\<exists>s. f = PStr s)"
    by (auto simp: from_is_text_def split: pyval.splits)
  with Some show ?thesis
    by (auto simp: calculate_variable_value_def split: option.split)
qed

lemma strings_of_text:
  "list_all is_text xs \<Longrightarrow> \<exists>names. strings_of xs = Inr names"
proof (induction xs)
  case Nil
  show ?case by simp
next
  case (Cons x xs)
  then obtain s names where "x = PStr s" "strings_of xs = Inr names"
    by (cases x) auto
  then show ?case by simp
qed

lemma resolve_variable_error:
  assumes "from_is_text c" and "values_are_text c"
    and "resolve_variable name (PDict c) pv env = Inl e"
  shows "is_configuration_error e"
proof -
  from calculate_variable_value_total [OF assms(1)] obtain v where
    v: "calculate_variable_value name (PDict c) pv env = Inr v"
    by blast
  show ?thesis
  proof (cases "map_of c ''values''")
    case None
    with assms(3) v show ?thesis
      by (auto simp: resolve_variable_def is_configuration_error_def split: if_splits)
  next
    case (Some allowed)
    with assms(2) obtain xs where xs: "allowed = PList xs" "list_all is_text xs"
      by (auto simp: values_are_text_def split: pyval.splits)
    from strings_of_text [OF xs(2)] obtain names where "strings_of xs = Inr names"
      by blast
    with assms(3) v Some xs show ?thesis
      by (auto simp: resolve_variable_def is_configuration_error_def py_join_def
          split: if_splits)
  qed
qed

lemma read_declared_error:
  assumes "list_all (\<lambda>(name, config). well_formed_declaration config) declared"
    and "read_declared declared pv env acc = Inl e"
  shows "is_configuration_error e"
  using assms
proof (induction declared arbitrary: acc)
  case Nil
  then show ?case by simp
next
  case (Cons p declared)
  obtain name config where p: "p = (name, config)" by (cases p)
  with Cons.prems obtain c where c: "config = PDict c" "from_is_text c" "values_are_text c"
    by (auto simp: well_formed_declaration_def split: pyval.splits)
  show ?case
  proof (cases "resolve_variable name (PDict c) pv env")
    case (Inl e')
    with Cons.prems p c have "e = e'" by simp
    with resolve_variable_error [OF c(2,3) Inl] show ?thesis by simp
  next
    case (Inr v)
    with Cons.prems p c have
      "read_declared declared pv env (AList.update name v acc) = Inl e"
      by simp
    with Cons.IH Cons.prems show ?thesis by simp
  qed
qed

lemma render_error:
  "render P variables text extra_vars = Inl e \<Longrightarrow>
     e = ConfigurationException ''Unresolved variable''"
  by (auto simp: render_def Let_def split: if_splits)

lemma load_modules_append:
  "load_modules importer (pre @ rest) st =
     on_success (load_modules importer pre st) (\<lambda>st'. load_modules importer rest st')"
proof (induction importer pre st rule: load_modules.induct)
  case (2 importer module_path more sys_path managers modules)
  show ?case
    by (auto simp: on_success_def 2 split: sum.splits prod.splits)
qed simp_all

lemma load_modules_import_error:
  assumes "load_modules importer pre st = Inr (sys_path, managers, loaded)"
    and "CHR '':'' \<notin> set module_name" and "importer sys_path module_name = Inl e"
  shows "load_modules importer (pre @ PStr module_name # rest) st = Inl e"
  using assms by (simp add: load_modules_append)

lemma lookup_module_unknown:
  assumes "map_of d ''type'' = Some (PStr type_name)" and "map_of modules type_name = None"
  shows "lookup_module modules (PDict d) = Inl (KeyError (PStr type_name))"
  using assms by (simp add: lookup_module_def)

text \<open>
  C2, amended: a failure of variable resolution on declarations whose \<open>from\<close> is
  text and whose allow-list is a list of strings (a missing required variable, a value
  that is not allowed), an output of the renderer that still holds a placeholder marker,
  and a top-level key that an included document repeats all raise
  ConfigurationException; an entity type that no module declares raises KeyError, and
  when the import of a module raises, the loader fails with that very exception, whatever
  it is.
\<close>

theorem configuration_error_kinds:
  "(list_all (\<lambda>(name, config). well_formed_declaration config) declared
      \<and> read_variables (PDict declared) pv env = Inl e1 \<longrightarrow> is_configuration_error e1)
   \<and> (render P variables text extra_vars = Inl e2 \<longrightarrow>
        e2 = ConfigurationException ''Unresolved variable'')
   \<and> (merge_items inc entries config = Inl e3 \<longrightarrow> is_configuration_error e3)
   \<and> (map_of d ''type'' = Some (PStr type_name) \<and> map_of modules type_name = None \<longrightarrow>
        lookup_module modules (PDict d) = Inl (KeyError (PStr type_name)))
   \<and> (load_modules importer pre st = Inr (sys_path, managers, loaded)
        \<and> CHR '':'' \<notin> set module_name \<and> importer sys_path module_name = Inl e5 \<longrightarrow>
        load_modules importer (pre @ PStr module_name # rest) st = Inl e5)"
proof -
  have variables: "is_configuration_error e1"
    if "list_all (\<lambda>(name, config). well_formed_declaration config) declared"
      and "read_variables (PDict declared) pv env = Inl e1"
  proof -
    from that(2) have "read_declared declared pv env [] = Inl e1"
      by (auto simp: read_variables_def on_success_Inl_iff)
    with that(1) show ?thesis by (rule read_declared_error)
  qed
  have merge: "is_configuration_error e3" if "merge_items inc entries config = Inl e3"
    using merge_items_error [OF that] by (auto simp: is_configuration_error_def)
  show ?thesis
    using variables render_error [of P variables "text" extra_vars e2] merge
      lookup_module_unknown load_modules_import_error
    by blast
qed

theorem configuration_error_kinds_witness:
  "list_all (\<lambda>(name, config). well_formed_declaration config)
       [(''token'', PDict [(''required'', PBool True)]),
        (''size'', PDict [(''values'', PList [PStr ''a'', PStr ''b''])])]
   \<and> read_variables (PDict [(''token'', PDict [(''required'', PBool True)]),
        (''size'', PDict [(''values'', PList [PStr ''a'', PStr ''b''])])]) [] Map.empty
       = Inl (ConfigurationException ''Missing required variable token'')
   \<and> is_configuration_error (ConfigurationException ''Missing required variable token'')
   \<and> render mustache_render [(''a'', PStr ''{{b}}'')] ''x {{ a }} y'' []
       = Inl (ConfigurationException ''Unresolved variable'')
   \<and> is_configuration_error
        (ConfigurationException ''jobs found in base config and include file extra.yml'')
   \<and> lookup_module app_modules (PDict [(''type'', PStr ''job'')]) = Inl (KeyError (PStr ''job''))
   \<and> load_modules (import_module (single_file_world PNone))
        (map PStr STANDARD_MODULES @ [PStr ''nosuch'']) ([], [], [])
       = Inl (ModuleNotFoundError ''nosuch'')
   \<and> load_modules (import_module (single_file_world PNone))
        (map PStr STANDARD_MODULES @ [PStr [], PStr ''nosuch'']) ([], [], [])
       = Inl ValueError"
proof -
  let ?declared = "[(''token'', PDict [(''required'', PBool True)]),
        (''size'', PDict [(''values'', PList [PStr ''a'', PStr ''b''])])]"
  have wf: "list_all (\<lambda>(name, config). well_formed_declaration config) ?declared"
    by (simp add: well_formed_declaration_def from_is_text_def values_are_text_def)
  have rv: "read_variables (PDict ?declared) [] Map.empty
       = Inl (ConfigurationException ''Missing required variable token'')"
    by (simp add: read_variables_def resolve_variable_def calculate_variable_value_def)
  note kinds = configuration_error_kinds
  have a: "is_configuration_error (ConfigurationException ''Missing required variable token'')"
    using kinds [THEN conjunct1, rule_format, of ?declared "[]" Map.empty] wf rv by blast
  have r: "render mustache_render [(''a'', PStr ''{{b}}'')] ''x {{ a }} y'' []
       = Inl (ConfigurationException ''Unresolved variable'')"
    using kinds [THEN conjunct2, THEN conjunct1, rule_format,
        of mustache_render "[(''a'', PStr ''{{b}}'')]" "''x {{ a }} y''" "[]"]
    by (cases "render mustache_render [(''a'', PStr ''{{b}}'')] ''x {{ a }} y'' []")
       (simp_all add: render_def mustache_render_def str_count_def strip_spaces_def
          is_space_def html_escape_def py_str_def)
  have m: "merge_items ''extra.yml'' [(''jobs'', PDict [])] [(''jobs'', PDict [])]
       = Inl (ConfigurationException ''jobs found in base config and include file extra.yml'')"
    by simp
  have b: "is_configuration_error
        (ConfigurationException ''jobs found in base config and include file extra.yml'')"
    using kinds [THEN conjunct2, THEN conjunct2, THEN conjunct1, rule_format, OF m] .
  have c: "lookup_module app_modules (PDict [(''type'', PStr ''job'')]) = Inl (KeyError (PStr ''job''))"
    using kinds [THEN conjunct2, THEN conjunct2, THEN conjunct2, THEN conjunct1, rule_format,
        of "[(''type'', PStr ''job'')]" "''job''" app_modules]
    by (simp add: app_modules_def)
  note import_fails =
    kinds [THEN conjunct2, THEN conjunct2, THEN conjunct2, THEN conjunct2, rule_format]
  have std: "\<exists>managers loaded.
      load_modules (import_module (single_file_world PNone)) (map PStr STANDARD_MODULES)
        ([], [], []) = Inr ([], managers, loaded)"
    by (simp add: single_file_world_def STANDARD_MODULES_def register_module_def)
  then obtain managers loaded where std':
      "load_modules (import_module (single_file_world PNone)) (map PStr STANDARD_MODULES)
        ([], [], []) = Inr ([], managers, loaded)"
    by blast
  have d: "load_modules (import_module (single_file_world PNone))
        (map PStr STANDARD_MODULES @ [PStr ''nosuch'']) ([], [], [])
       = Inl (ModuleNotFoundError ''nosuch'')"
    by (rule import_fails [where sys_path = "[]" and managers = managers and loaded = loaded])
       (simp add: std', simp add: single_file_world_def STANDARD_MODULES_def import_error_def)
  have e: "load_modules (import_module (single_file_world PNone))
        (map PStr STANDARD_MODULES @ [PStr [], PStr ''nosuch'']) ([], [], [])
       = Inl ValueError"
    by (rule import_fails [where sys_path = "[]" and managers = managers and loaded = loaded])
       (simp add: std', simp add: single_file_world_def STANDARD_MODULES_def import_error_def)
  from wf rv a r b c d e show ?thesis by blast
qed

subsection \<open>Variables of an included document\<close>

lemma same_but_variables_refl: "same_but_variables c c"
  by (simp add: same_but_variables_def list_all2_refl case_prod_beta)

lemma same_but_variables_keys:
  "same_but_variables c c' \<Longrightarrow> map fst c = map fst c'"
  unfolding same_but_variables_def
  by (induction c c' rule: list_all2_induct) auto

lemma same_but_variables_lookup:
  "same_but_variables c c' \<Longrightarrow> k \<noteq> ''variables'' \<Longrightarrow> map_of c k = map_of c' k"
  unfolding same_but_variables_def
  by (induction c c' rule: list_all2_induct) auto

lemma same_but_variables_update:
  "same_but_variables c c' \<Longrightarrow> (k \<noteq> ''variables'' \<longrightarrow> v = v') \<Longrightarrow>
     same_but_variables (AList.update k v c) (AList.update k v' c')"
  unfolding same_but_variables_def
  by (induction c c' rule: list_all2_induct) auto

lemma merge_items_same:
  "same_but_variables entries entries' \<Longrightarrow> same_but_variables c c' \<Longrightarrow>
     same_outcome (merge_items inc entries c) (merge_items inc entries' c')"
  unfolding same_but_variables_def [of entries entries']
proof (induction entries entries' arbitrary: c c' rule: list_all2_induct)
  case Nil
  then show ?case by (simp add: same_outcome_def)
next
  case (Cons x xs y ys)
  obtain k v where x: "x = (k, v)" by (cases x)
  obtain k' v' where y: "y = (k', v')" by (cases y)
  from Cons.hyps x y have k: "k' = k" and v: "k \<noteq> ''variables'' \<longrightarrow> v = v'" by auto
  from same_but_variables_keys [OF Cons.prems] have keys: "map fst c = map fst c'" .
  show ?case
  proof (cases "k \<in> set (map fst c)")
    case True
    with keys show ?thesis by (simp add: x y k same_outcome_def)
  next
    case False
    from same_but_variables_update [OF Cons.prems v]
    have "same_outcome (merge_items inc xs (AList.update k v c))
                       (merge_items inc ys (AList.update k v' c'))"
      by (rule Cons.IH)
    with False keys show ?thesis by (simp add: x y k)
  qed
qed

lemma read_sections_same:
  "same_but_variables c c' \<Longrightarrow>
     read_sections modules variables helper c st = read_sections modules variables helper c' st"
  unfolding same_but_variables_def
proof (induction c c' arbitrary: st rule: list_all2_induct)
  case Nil
  show ?case by simp
next
  case (Cons x xs y ys)
  obtain k v where x: "x = (k, v)" by (cases x)
  obtain k' v' where y: "y = (k', v')" by (cases y)
  from Cons.hyps x y have k: "k' = k" and v: "k \<noteq> ''variables'' \<longrightarrow> v = v'" by auto
  have rest: "read_sections modules variables helper xs = read_sections modules variables helper ys"
    by (rule ext) (rule Cons.IH)
  show ?case
  proof (cases "k = ''variables''")
    case True
    then show ?thesis by (simp add: x y k rest)
  next
    case False
    with v have "v = v'" by simp
    then show ?thesis by (simp add: x y k rest)
  qed
qed

lemma same_but_variables_replace:
  "same_but_variables (d1 @ (''variables'', V) # d2) (d1 @ (''variables'', V') # d2)"
  by (simp add: same_but_variables_def list_all2_appendI list_all2_refl case_prod_beta)

lemma merge_includes_same:
  assumes doc: "read_yaml w p = Inr (PDict (d1 @ (''variables'', V) # d2))"
    and w': "w' = w\<lparr>read_yaml := (read_yaml w)(p := Inr (PDict (d1 @ (''variables'', V') # d2)))\<rparr>"
  shows "same_but_variables c c' \<Longrightarrow>
     same_outcome (merge_includes w base incs c) (merge_includes w' base incs c')"
proof (induction incs arbitrary: c c')
  case Nil
  then show ?case by (simp add: same_outcome_def)
next
  case (Cons x incs)
  show ?case
  proof (cases x)
    case (PStr inc)
    let ?q = "abspath w (path_join w base inc)"
    have q': "abspath w' (path_join w' base inc) = ?q" by (simp add: w')
    have "\<exists>entries entries'. same_but_variables entries entries'
            \<and> read_yaml w ?q = Inr (PDict entries) \<and> read_yaml w' ?q = Inr (PDict entries')"
      if "\<not> (read_yaml w' ?q = read_yaml w ?q)"
    proof -
      from that have "?q = p" by (auto simp: w' split: if_splits)
      with doc show ?thesis
        using same_but_variables_replace [of d1 V d2 V'] by (auto simp: w')
    qed
    then consider (same) "read_yaml w' ?q = read_yaml w ?q"
      | (changed) entries entries' where "same_but_variables entries entries'"
          "read_yaml w ?q = Inr (PDict entries)" "read_yaml w' ?q = Inr (PDict entries')"
      by blast
    then show ?thesis
    proof cases
      case same
      show ?thesis
      proof (cases "read_yaml w ?q")
        case (Inl e)
        with same show ?thesis by (simp add: PStr q' same_outcome_def)
      next
        case (Inr additional)
        show ?thesis
        proof (cases "py_items additional")
          case (Inl e)
          with same Inr show ?thesis by (simp add: PStr q' same_outcome_def)
        next
          case items: (Inr entries)
          from merge_items_same [OF same_but_variables_refl Cons.prems, of inc entries]
          have m: "same_outcome (merge_items inc entries c) (merge_items inc entries c')" .
          show ?thesis
          proof (cases "merge_items inc entries c")
            case (Inl e)
            with m have "merge_items inc entries c' = Inl e"
              by (cases "merge_items inc entries c'") (simp_all add: same_outcome_def)
            with Inl same Inr items show ?thesis by (simp add: PStr q' same_outcome_def)
          next
            case merged: (Inr c1)
            with m obtain c1' where c1': "merge_items inc entries c' = Inr c1'"
              and rel: "same_but_variables c1 c1'"
              by (cases "merge_items inc entries c'") (simp_all add: same_outcome_def)
            from Cons.IH [OF rel] merged c1' same Inr items show ?thesis
              by (simp add: PStr q')
          qed
        qed
      qed
    next
      case changed
      from merge_items_same [OF changed(1) Cons.prems, of inc]
      have m: "same_outcome (merge_items inc entries c) (merge_items inc entries' c')" .
      show ?thesis
      proof (cases "merge_items inc entries c")
        case (Inl e)
        with m have "merge_items inc entries' c' = Inl e"
          by (cases "merge_items inc entries' c'") (simp_all add: same_outcome_def)
        with Inl changed show ?thesis by (simp add: PStr q' same_outcome_def)
      next
        case merged: (Inr c1)
        with m obtain c1' where c1': "merge_items inc entries' c' = Inr c1'"
          and rel: "same_but_variables c1 c1'"
          by (cases "merge_items inc entries' c'") (simp_all add: same_outcome_def)
        from Cons.IH [OF rel] merged c1' changed show ?thesis
          by (simp add: PStr q')
      qed
    qed
  qed (simp_all add: same_outcome_def)
qed

lemma read_config_entities_same:
  "same_but_variables c c' \<Longrightarrow>
     read_config_entities t modules variables c helper =
     read_config_entities t modules variables c' helper"
  by (simp add: read_config_entities_def read_sections_same)

lemma include_variables_no_effect:
  assumes other: "p \<noteq> abspath w filename"
    and doc: "read_yaml w p = Inr (PDict (d1 @ (''variables'', V) # d2))"
  shows "read_config
           (w\<lparr>read_yaml := (read_yaml w)(p := Inr (PDict (d1 @ (''variables'', V') # d2)))\<rparr>)
           filename pv
         = read_config w filename pv"
proof -
  let ?w' = "w\<lparr>read_yaml := (read_yaml w)(p := Inr (PDict (d1 @ (''variables'', V') # d2)))\<rparr>"
  let ?base = "dirname w (abspath w filename)"
  from other have root: "read_yaml ?w' (abspath w filename) = read_yaml w (abspath w filename)"
    by simp
  have merged: "same_outcome (merge_includes w ?base incs c) (merge_includes ?w' ?base incs c)"
    for incs c
    by (rule merge_includes_same [OF doc refl same_but_variables_refl])
  have tail: "on_success (merge_includes ?w' ?base incs c) (\<lambda>config.
      on_success (py_get (PDict config) ''modules'' (PList [])) (\<lambda>additional_modules.
      on_success (init_modules (import_module w) additional_modules) (\<lambda>(managers, modules).
      on_success (read_config_entities (obj_truthy w) modules variables config helper)
        (\<lambda>(deployment_objects, dependencies).
      Inr (deployment_objects, dependencies, managers)))))
    = on_success (merge_includes w ?base incs c) (\<lambda>config.
      on_success (py_get (PDict config) ''modules'' (PList [])) (\<lambda>additional_modules.
      on_success (init_modules (import_module w) additional_modules) (\<lambda>(managers, modules).
      on_success (read_config_entities (obj_truthy w) modules variables config helper)
        (\<lambda>(deployment_objects, dependencies).
      Inr (deployment_objects, dependencies, managers)))))"
    for incs c variables helper
  proof (cases "merge_includes w ?base incs c")
    case (Inl e)
    with merged [of incs c] have "merge_includes ?w' ?base incs c = Inl e"
      by (cases "merge_includes ?w' ?base incs c") (simp_all add: same_outcome_def)
    with Inl show ?thesis by simp
  next
    case (Inr c1)
    with merged [of incs c] obtain c1' where c1': "merge_includes ?w' ?base incs c = Inr c1'"
      and rel: "same_but_variables c1 c1'"
      by (cases "merge_includes ?w' ?base incs c") (simp_all add: same_outcome_def)
    from same_but_variables_lookup [OF rel, of "''modules''"]
    have "map_of c1 ''modules'' = map_of c1' ''modules''" by simp
    with Inr c1' show ?thesis
      by (simp add: read_config_entities_same [OF rel])
  qed
  have sel: "abspath ?w' = abspath w" "dirname ?w' = dirname w"
    "os_environ ?w' = os_environ w" "import_module ?w' = import_module w"
    "obj_truthy ?w' = obj_truthy w"
    by simp_all
  show ?thesis
    by (simp only: read_config_def Let_def sel root tail)
qed

lemma read_config_variables_failure:
  assumes "read_yaml w (abspath w filename) = Inr (PDict root)"
    and "read_variables (case map_of root ''variables'' of None \<Rightarrow> PDict [] | Some v \<Rightarrow> v)
           pv (os_environ w) = Inl e"
  shows "read_config w filename pv = Inl e"
  using assms by (simp add: read_config_def Let_def)

lemma list_all2_member:
  "list_all2 P xs ys \<Longrightarrow> x \<in> set xs \<Longrightarrow> \<exists>y \<in> set ys. P x y"
  by (induction xs ys rule: list_all2_induct) auto

lemma merge_includes_keeps_items:
  assumes "merge_includes w base incs config = Inr config'"
    and "PStr inc \<in> set incs"
    and "read_yaml w (abspath w (path_join w base inc)) = Inr (PDict doc)"
  shows "set doc \<subseteq> set config'"
proof -
  from merge_includes_success [OF assms(1)] obtain docs where
    docs: "list_all2 (\<lambda>inc doc. \<exists>path. inc = PStr path \<and>
                  read_yaml w (abspath w (path_join w base path)) = Inr (PDict doc)) incs docs"
    and config': "config' = config @ concat docs"
    by blast
  from list_all2_member [OF docs assms(2)] assms(3) have "doc \<in> set docs"
    by auto
  with config' show ?thesis by auto
qed

text \<open>
  C10: the variable container comes from the root document alone, before any include is
  read: when the root's \<open>variables\<close> section does not resolve, the load fails with
  that error whatever the includes are; a \<open>variables\<close> section of an included
  document is merged as one more top-level item of the configuration, and replacing it
  by any other value leaves the result of the load as it is, so it is never resolved.
\<close>

theorem variables_from_root_only:
  "(read_yaml w (abspath w filename) = Inr (PDict root)
      \<and> read_variables (case map_of root ''variables'' of None \<Rightarrow> PDict [] | Some v \<Rightarrow> v)
            pv (os_environ w) = Inl e
      \<longrightarrow> read_config w filename pv = Inl e)
   \<and> (p \<noteq> abspath w filename
      \<and> read_yaml w p = Inr (PDict (d1 @ (''variables'', V) # d2))
      \<longrightarrow> read_config
            (w\<lparr>read_yaml := (read_yaml w)(p := Inr (PDict (d1 @ (''variables'', V') # d2)))\<rparr>)
            filename pv
          = read_config w filename pv)
   \<and> (merge_includes w base incs config = Inr config'
      \<and> PStr inc \<in> set incs
      \<and> read_yaml w (abspath w (path_join w base inc)) = Inr (PDict doc)
      \<and> (''variables'', V) \<in> set doc
      \<longrightarrow> (''variables'', V) \<in> set config')"
  using read_config_variables_failure [of w filename root pv e]
    include_variables_no_effect [of p w filename d1 V d2 V' pv]
    merge_includes_keeps_items [of w base incs config config' inc doc]
  by blast

theorem variables_from_root_only_witness:
  "read_config
      (single_file_world
         (PDict [(''variables'', PDict [(''token'', PDict [(''required'', PBool True)])]),
                 (''includes'', PList [PStr ''missing.yml''])]))
      ''/etc/root.yml'' []
     = Inl (ConfigurationException ''Missing required variable token'')
   \<and> read_config
        (include_variables_world
           \<lparr>read_yaml := (read_yaml include_variables_world)
              (''/etc/extra.yml'' := Inr (PDict ([] @ (''variables'', PDict []) # [])))\<rparr>)
        ''/etc/root.yml'' [(''token'', PStr ''t'')]
     = read_config include_variables_world ''/etc/root.yml'' [(''token'', PStr ''t'')]
   \<and> read_config include_variables_world ''/etc/root.yml'' []
     = Inr ([(''db'', 7)], [], map (\<lambda>name. (name, 0)) STANDARD_MODULES)
   \<and> (''variables'', PDict [(''token'', PDict [(''required'', PBool True)])])
       \<in> set [(''includes'', PList [PStr ''extra.yml'']),
               (''db'', PDict [(''type'', PStr ''apps'')]),
               (''variables'', PDict [(''token'', PDict [(''required'', PBool True)])])]"
proof -
  note root_only = variables_from_root_only
  have a: "read_config
      (single_file_world
         (PDict [(''variables'', PDict [(''token'', PDict [(''required'', PBool True)])]),
                 (''includes'', PList [PStr ''missing.yml''])]))
      ''/etc/root.yml'' []
     = Inl (ConfigurationException ''Missing required variable token'')"
    by (rule root_only [THEN conjunct1, rule_format,
          where root = "[(''variables'', PDict [(''token'', PDict [(''required'', PBool True)])]),
                 (''includes'', PList [PStr ''missing.yml''])]"])
       (simp add: single_file_world_def read_variables_def resolve_variable_def
          calculate_variable_value_def)
  have b: "read_config
        (include_variables_world
           \<lparr>read_yaml := (read_yaml include_variables_world)
              (''/etc/extra.yml'' := Inr (PDict ([] @ (''variables'', PDict []) # [])))\<rparr>)
        ''/etc/root.yml'' [(''token'', PStr ''t'')]
     = read_config include_variables_world ''/etc/root.yml'' [(''token'', PStr ''t'')]"
    by (rule root_only [THEN conjunct2, THEN conjunct1, rule_format,
          where V = "PDict [(''token'', PDict [(''required'', PBool True)])]"])
       (simp add: include_variables_world_def single_file_world_def)
  have c: "read_config include_variables_world ''/etc/root.yml'' []
     = Inr ([(''db'', 7)], [], map (\<lambda>name. (name, 0)) STANDARD_MODULES)"
    by (simp add: read_config_def read_variables_def init_modules_def register_module_def
        include_variables_world_def single_file_world_def
        STANDARD_MODULES_def read_config_entities_def lookup_module_def
        check_conditions_apply_def build_dependency_tree_def)
  have m: "merge_includes include_variables_world ''/etc'' [PStr ''extra.yml'']
             [(''includes'', PList [PStr ''extra.yml'']),
              (''db'', PDict [(''type'', PStr ''apps'')])]
           = Inr [(''includes'', PList [PStr ''extra.yml'']),
               (''db'', PDict [(''type'', PStr ''apps'')]),
               (''variables'', PDict [(''token'', PDict [(''required'', PBool True)])])]"
    by (simp add: include_variables_world_def single_file_world_def)
  have d: "(''variables'', PDict [(''token'', PDict [(''required'', PBool True)])])
       \<in> set [(''includes'', PList [PStr ''extra.yml'']),
               (''db'', PDict [(''type'', PStr ''apps'')]),
               (''variables'', PDict [(''token'', PDict [(''required'', PBool True)])])]"
    by (rule root_only [THEN conjunct2, THEN conjunct2, rule_format,
          where w = include_variables_world and base = "''/etc''" and inc = "''extra.yml''"
            and incs = "[PStr ''extra.yml'']"
            and config = "[(''includes'', PList [PStr ''extra.yml'']),
              (''db'', PDict [(''type'', PStr ''apps'')])]"
            and doc = "[(''variables'', PDict [(''token'', PDict [(''required'', PBool True)])])]"])
       (simp add: m, simp add: include_variables_world_def single_file_world_def)
  from a b c d show ?thesis by blast
qed

end
